theory Spec2Isabelle
  imports Complex_Main
begin

section \<open>Impurity and information gain (InfoGain\_Computation.ipynb)\<close>

text \<open>
  The notebook defines two functions, \<open>compute_impurity\<close> and
  \<open>comp_feature_information_gain\<close>, over Pandas series and data frames.
  Conventions of the embedding:
  \<^item> a Pandas series of labels is a list of labels, in row order;
  \<^item> a data frame is a list of column names and a list of rows, each row giving the
    value of every column;
  \<^item> a raised exception is the \<open>Inl\<close> branch of a sum type;
  \<^item> \<open>print\<close> appends the tuple of its arguments to the standard output, which the
    function returns next to its result;
  \<^item> a double is the real number it denotes (the two zeros are one number; infinities
    and NaN do not arise).

  The arithmetic on doubles is modelled twice.
  \<^item> In \<open>compute_impurity_fp\<close> and \<open>comp_feature_information_gain_fp\<close> the operations on
    doubles are a parameter, the record \<open>float_ops\<close>: the division of two counts, the
    product, the difference, \<open>np.log2\<close>, \<open>np.square\<close>, \<open>np.sum\<close>, and \<open>round(x, 3)\<close> of a
    numpy double and of a Python float. What is proved of these functions holds for
    every such arithmetic, that of IEEE doubles (\<open>ieee_ops\<close>) among them.
  \<^item> In \<open>compute_impurity\<close> and \<open>comp_feature_information_gain\<close> the operations are those
    of the real numbers, and \<open>round(x, 3)\<close> is rounding to the nearest multiple of
    \<open>1/1000\<close>, ties to the even neighbour: the instance \<open>exact_ops\<close> of the first model.
    It gives the values of the program unless a rounded quantity lies on a tie of the
    third decimal, where the double next to it may round the other way (the weight
    \<open>9/80\<close> is rounded to 0.113 by the program and to 0.112 here). It is used on the
    concrete inputs of the notebook, on the empty inputs and for the impurity zero.
\<close>

subsection \<open>Exceptions and rounding\<close>

datatype error = ValueError string | KeyError string | ZeroDivisionError

text \<open>Rounding of a real number to the nearest integer, ties to even.\<close>

definition rint :: "real \<Rightarrow> int" where
  "rint x =
     (let f = \<lfloor>x\<rfloor>; d = x - of_int f
      in if d < 1 / 2 then f
         else if 1 / 2 < d then f + 1
         else if even f then f else f + 1)"

text \<open>\<open>round(x, 3)\<close> of the exact value \<open>x\<close>.\<close>

definition round3 :: "real \<Rightarrow> real" where
  "round3 x = of_int (rint (x * 1000)) / 1000"

text \<open>Python's \<open>a / b\<close> on two lengths, with the exact quotient.\<close>

definition truediv :: "nat \<Rightarrow> nat \<Rightarrow> error + real" where
  "truediv a b = (if b = 0 then Inl ZeroDivisionError else Inr (real a / real b))"

subsection \<open>Series\<close>

text \<open>\<open>Series.unique()\<close>: the distinct values, in order of first appearance.\<close>

definition unique :: "'a list \<Rightarrow> 'a list" where
  "unique xs = rev (remdups (rev xs))"

text \<open>
  \<open>Series.value_counts(normalize=True)\<close>: one entry per distinct value, holding its
  relative frequency, the most frequent value first (values of equal count stay in
  order of first appearance). Of an empty series it is the empty series.
\<close>

definition value_counts :: "'a list \<Rightarrow> ('a \<times> real) list" where
  "value_counts xs =
     map (\<lambda>(l, c). (l, real c / real (length xs)))
         (sort_key (\<lambda>(l, c). - int c) (map (\<lambda>l. (l, count_list xs l)) (unique xs)))"

subsection \<open>compute\_impurity\<close>

definition compute_impurity :: "'a list \<Rightarrow> string \<Rightarrow> error + real" where
  "compute_impurity feature impurity_criterion =
     (let probs = map snd (value_counts feature)
      in if impurity_criterion = ''entropy''
         then Inr (round3 (- 1 * sum_list (map (\<lambda>p. log 2 p * p) probs)))
         else if impurity_criterion = ''gini''
         then Inr (round3 (1 - sum_list (map (\<lambda>p. p\<^sup>2) probs)))
         else Inl (ValueError ''Unknown impurity criterion''))"

subsection \<open>Data frames\<close>

record 'a dataframe =
  columns :: "string list"
  rows :: "(string \<Rightarrow> 'a) list"

text \<open>\<open>len(df)\<close>: the number of rows.\<close>

definition len :: "'a dataframe \<Rightarrow> nat" where
  "len df = length (rows df)"

text \<open>\<open>df[c]\<close>: the column named \<open>c\<close>, or \<open>KeyError\<close>.\<close>

definition getitem :: "'a dataframe \<Rightarrow> string \<Rightarrow> error + 'a list" where
  "getitem df c =
     (if c \<in> set (columns df) then Inr (map (\<lambda>r. r c) (rows df)) else Inl (KeyError c))"

text \<open>\<open>df[df[c] == v]\<close>: the rows whose column \<open>c\<close> holds \<open>v\<close>, in order.\<close>

definition select_eq :: "'a dataframe \<Rightarrow> string \<Rightarrow> 'a \<Rightarrow> error + 'a dataframe" where
  "select_eq df c v =
     (if c \<in> set (columns df)
      then Inr (df\<lparr>rows := filter (\<lambda>r. r c = v) (rows df)\<rparr>)
      else Inl (KeyError c))"

subsection \<open>comp\_feature\_information\_gain\<close>

text \<open>What \<open>print\<close> is given: strings, a float, or a list of floats.\<close>

datatype pyobj = Str string | Float real | FloatList "real list"

type_synonym stdout = "pyobj list list"

text \<open>
  The loop over the levels of the descriptive feature; the two lists grow by one
  entry per level.
\<close>

fun partition_loop ::
  "'a dataframe \<Rightarrow> string \<Rightarrow> string \<Rightarrow> string \<Rightarrow> 'a list \<Rightarrow> real list \<times> real list
     \<Rightarrow> error + real list \<times> real list" where
  "partition_loop df target descriptive_feature split_criterion [] (entropy_list, weight_list) =
     Inr (entropy_list, weight_list)"
| "partition_loop df target descriptive_feature split_criterion (level # levels)
       (entropy_list, weight_list) =
     (case select_eq df descriptive_feature level of
        Inl e \<Rightarrow> Inl e
      | Inr df_feature_level \<Rightarrow>
     (case getitem df_feature_level target of
        Inl e \<Rightarrow> Inl e
      | Inr partition_target \<Rightarrow>
     (case compute_impurity partition_target split_criterion of
        Inl e \<Rightarrow> Inl e
      | Inr entropy_level \<Rightarrow>
     (case truediv (len df_feature_level) (len df) of
        Inl e \<Rightarrow> Inl e
      | Inr weight_level \<Rightarrow>
          partition_loop df target descriptive_feature split_criterion levels
            (entropy_list @ [round3 entropy_level], weight_list @ [round3 weight_level])))))"

definition comp_feature_information_gain ::
  "'a dataframe \<Rightarrow> string \<Rightarrow> string \<Rightarrow> string \<Rightarrow> stdout \<times> (error + real)" where
  "comp_feature_information_gain df target descriptive_feature split_criterion =
     (let out = [[Str ''target feature:'', Str target],
                 [Str ''descriptive_feature:'', Str descriptive_feature],
                 [Str ''split criterion:'', Str split_criterion]]
      in case getitem df target of
           Inl e \<Rightarrow> (out, Inl e)
         | Inr target_column \<Rightarrow>
        (case compute_impurity target_column split_criterion of
           Inl e \<Rightarrow> (out, Inl e)
         | Inr target_entropy \<Rightarrow>
        (case getitem df descriptive_feature of
           Inl e \<Rightarrow> (out, Inl e)
         | Inr descriptive_column \<Rightarrow>
        (case partition_loop df target descriptive_feature split_criterion
                (unique descriptive_column) ([], []) of
           Inl e \<Rightarrow> (out, Inl e)
         | Inr (entropy_list, weight_list) \<Rightarrow>
             (let feature_remaining_impurity = sum_list (map2 (*) entropy_list weight_list);
                  information_gain = target_entropy - feature_remaining_impurity
              in (out @ [[Str ''impurity of partitions:'', FloatList entropy_list],
                         [Str ''weights of partitions:'', FloatList weight_list],
                         [Str ''remaining impurity:'', Float feature_remaining_impurity],
                         [Str ''information gain:'', Float information_gain],
                         [Str ''===================='']],
                  Inr information_gain))))))"

text \<open>The value the function returns (or the exception it raises).\<close>

definition information_gain_of ::
  "'a dataframe \<Rightarrow> string \<Rightarrow> string \<Rightarrow> string \<Rightarrow> error + real" where
  "information_gain_of df target descriptive_feature split_criterion =
     snd (comp_feature_information_gain df target descriptive_feature split_criterion)"

subsection \<open>The vegetation data set\<close>

text \<open>
  The seven rows of the data frame \<open>df\<close> that the notebook loads (the table of its
  output): \<open>stream\<close> is boolean, the other three columns are strings.
\<close>

datatype cell = B bool | S string

definition veg_row :: "bool \<Rightarrow> string \<Rightarrow> string \<Rightarrow> string \<Rightarrow> string \<Rightarrow> cell" where
  "veg_row stream slope elevation vegetation =
     (\<lambda>c. S [])(''stream'' := B stream, ''slope'' := S slope,
                ''elevation'' := S elevation, ''vegetation'' := S vegetation)"

definition vegetation_df :: "cell dataframe" where
  "vegetation_df =
     \<lparr>columns = [''stream'', ''slope'', ''elevation'', ''vegetation''],
      rows = [veg_row False ''steep'' ''high'' ''chapparal'',
              veg_row True ''moderate'' ''low'' ''riparian'',
              veg_row True ''steep'' ''medium'' ''riparian'',
              veg_row False ''steep'' ''medium'' ''chapparal'',
              veg_row False ''flat'' ''high'' ''conifer'',
              veg_row True ''steep'' ''highest'' ''conifer'',
              veg_row True ''steep'' ''high'' ''chapparal'']\<rparr>"

text \<open>A data frame with the two columns \<open>d\<close> and \<open>t\<close>, from its rows.\<close>

definition frame_dt :: "(string \<times> string) list \<Rightarrow> string dataframe" where
  "frame_dt ps =
     \<lparr>columns = [''d'', ''t''],
      rows = map (\<lambda>(d, t). (\<lambda>c. [])(''d'' := d, ''t'' := t)) ps\<rparr>"

section \<open>The specification's formulas\<close>

text \<open>
  The distribution of a label sequence, and the two impurity measures, as the
  specification words them: sums over the distinct labels of the sequence.
\<close>

definition rel_freq :: "'a list \<Rightarrow> 'a \<Rightarrow> real" where
  "rel_freq xs l = real (count_list xs l) / real (length xs)"

definition spec_entropy :: "'a list \<Rightarrow> real" where
  "spec_entropy xs = - (\<Sum>l\<in>set xs. rel_freq xs l * log 2 (rel_freq xs l))"

definition spec_gini :: "'a list \<Rightarrow> real" where
  "spec_gini xs = 1 - (\<Sum>l\<in>set xs. (rel_freq xs l)\<^sup>2)"

text \<open>The impurity before rounding, and rounded to three decimals.\<close>

definition unrounded_impurity :: "string \<Rightarrow> 'a list \<Rightarrow> real" where
  "unrounded_impurity c xs = (if c = ''entropy'' then spec_entropy xs else spec_gini xs)"

definition impurity_value :: "string \<Rightarrow> 'a list \<Rightarrow> real" where
  "impurity_value c xs = round3 (unrounded_impurity c xs)"

text \<open>All labels of the sequence are the same.\<close>

definition homogeneous :: "'a list \<Rightarrow> bool" where
  "homogeneous xs = (\<forall>x\<in>set xs. \<forall>y\<in>set xs. x = y)"

text \<open>
  A column of the data set, the partition of a level of the descriptive attribute,
  the target values within it, and its weight.
\<close>

definition column :: "'a dataframe \<Rightarrow> string \<Rightarrow> 'a list" where
  "column df c = map (\<lambda>r. r c) (rows df)"

definition partition_rows :: "'a dataframe \<Rightarrow> string \<Rightarrow> 'a \<Rightarrow> (string \<Rightarrow> 'a) list" where
  "partition_rows df d level = filter (\<lambda>r. r d = level) (rows df)"

definition partition_target :: "'a dataframe \<Rightarrow> string \<Rightarrow> string \<Rightarrow> 'a \<Rightarrow> 'a list" where
  "partition_target df t d level = map (\<lambda>r. r t) (partition_rows df d level)"

definition partition_weight :: "'a dataframe \<Rightarrow> string \<Rightarrow> 'a \<Rightarrow> real" where
  "partition_weight df d level =
     real (length (partition_rows df d level)) / real (length (rows df))"

text \<open>The levels of an attribute, in order of first appearance.\<close>

definition levels :: "'a dataframe \<Rightarrow> string \<Rightarrow> 'a list" where
  "levels df d = unique (column df d)"

text \<open>
  The remaining impurity as the specification words it, with the weight of each
  partition as it is, and as the code computes it, with the weight rounded.
\<close>

definition spec_remaining_impurity :: "'a dataframe \<Rightarrow> string \<Rightarrow> string \<Rightarrow> string \<Rightarrow> real" where
  "spec_remaining_impurity df t d c =
     (\<Sum>l\<leftarrow>levels df d.
        impurity_value c (partition_target df t d l) * partition_weight df d l)"

definition remaining_impurity :: "'a dataframe \<Rightarrow> string \<Rightarrow> string \<Rightarrow> string \<Rightarrow> real" where
  "remaining_impurity df t d c =
     (\<Sum>l\<leftarrow>levels df d.
        impurity_value c (partition_target df t d l) * round3 (partition_weight df d l))"

section \<open>The two functions over double arithmetic\<close>

text \<open>
  The operations on doubles that the two functions use: \<open>fdiv a b\<close> is the double
  \<open>a / b\<close> of two counts, \<open>fmul\<close> and \<open>fsub\<close> are \<open>*\<close> and \<open>-\<close> on doubles, \<open>flog2\<close> and
  \<open>fsquare\<close> are \<open>np.log2\<close> and \<open>np.square\<close> on one entry, \<open>fsum\<close> is \<open>np.sum\<close> of an
  array, \<open>np_round\<close> is \<open>round(x, 3)\<close> of a numpy double and \<open>py_round\<close> is
  \<open>round(x, 3)\<close> of a Python float.
\<close>

record float_ops =
  fdiv :: "nat \<Rightarrow> nat \<Rightarrow> real"
  fmul :: "real \<Rightarrow> real \<Rightarrow> real"
  fsub :: "real \<Rightarrow> real \<Rightarrow> real"
  flog2 :: "real \<Rightarrow> real"
  fsquare :: "real \<Rightarrow> real"
  fsum :: "real list \<Rightarrow> real"
  np_round :: "real \<Rightarrow> real"
  py_round :: "real \<Rightarrow> real"

text \<open>The operations of the real numbers, with rounding ties to even.\<close>

definition exact_ops :: float_ops where
  "exact_ops =
     \<lparr>fdiv = (\<lambda>a b. real a / real b), fmul = (*), fsub = (-), flog2 = log 2,
      fsquare = (\<lambda>p. p\<^sup>2), fsum = sum_list, np_round = round3, py_round = round3\<rparr>"

text \<open>\<open>Series.value_counts(normalize=True)\<close>: the counts, sorted, divided by their sum.\<close>

definition value_counts_fp :: "float_ops \<Rightarrow> 'a list \<Rightarrow> ('a \<times> real) list" where
  "value_counts_fp fl xs =
     map (\<lambda>(l, c). (l, fdiv fl c (length xs)))
         (sort_key (\<lambda>(l, c). - int c) (map (\<lambda>l. (l, count_list xs l)) (unique xs)))"

definition compute_impurity_fp :: "float_ops \<Rightarrow> 'a list \<Rightarrow> string \<Rightarrow> error + real" where
  "compute_impurity_fp fl feature impurity_criterion =
     (let probs = map snd (value_counts_fp fl feature)
      in if impurity_criterion = ''entropy''
         then Inr (np_round fl
                (fmul fl (- 1) (fsum fl (map (\<lambda>p. fmul fl (flog2 fl p) p) probs))))
         else if impurity_criterion = ''gini''
         then Inr (np_round fl (fsub fl 1 (fsum fl (map (fsquare fl) probs))))
         else Inl (ValueError ''Unknown impurity criterion''))"

definition truediv_fp :: "float_ops \<Rightarrow> nat \<Rightarrow> nat \<Rightarrow> error + real" where
  "truediv_fp fl a b = (if b = 0 then Inl ZeroDivisionError else Inr (fdiv fl a b))"

fun partition_loop_fp ::
  "float_ops \<Rightarrow> 'a dataframe \<Rightarrow> string \<Rightarrow> string \<Rightarrow> string \<Rightarrow> 'a list
     \<Rightarrow> real list \<times> real list \<Rightarrow> error + real list \<times> real list" where
  "partition_loop_fp fl df target descriptive_feature split_criterion []
       (entropy_list, weight_list) =
     Inr (entropy_list, weight_list)"
| "partition_loop_fp fl df target descriptive_feature split_criterion (level # more_levels)
       (entropy_list, weight_list) =
     (case select_eq df descriptive_feature level of
        Inl e \<Rightarrow> Inl e
      | Inr df_feature_level \<Rightarrow>
     (case getitem df_feature_level target of
        Inl e \<Rightarrow> Inl e
      | Inr partition_values \<Rightarrow>
     (case compute_impurity_fp fl partition_values split_criterion of
        Inl e \<Rightarrow> Inl e
      | Inr entropy_level \<Rightarrow>
     (case truediv_fp fl (len df_feature_level) (len df) of
        Inl e \<Rightarrow> Inl e
      | Inr weight_level \<Rightarrow>
          partition_loop_fp fl df target descriptive_feature split_criterion more_levels
            (entropy_list @ [np_round fl entropy_level],
             weight_list @ [py_round fl weight_level])))))"

definition comp_feature_information_gain_fp ::
  "float_ops \<Rightarrow> 'a dataframe \<Rightarrow> string \<Rightarrow> string \<Rightarrow> string \<Rightarrow> stdout \<times> (error + real)" where
  "comp_feature_information_gain_fp fl df target descriptive_feature split_criterion =
     (let out = [[Str ''target feature:'', Str target],
                 [Str ''descriptive_feature:'', Str descriptive_feature],
                 [Str ''split criterion:'', Str split_criterion]]
      in case getitem df target of
           Inl e \<Rightarrow> (out, Inl e)
         | Inr target_column \<Rightarrow>
        (case compute_impurity_fp fl target_column split_criterion of
           Inl e \<Rightarrow> (out, Inl e)
         | Inr target_entropy \<Rightarrow>
        (case getitem df descriptive_feature of
           Inl e \<Rightarrow> (out, Inl e)
         | Inr descriptive_column \<Rightarrow>
        (case partition_loop_fp fl df target descriptive_feature split_criterion
                (unique descriptive_column) ([], []) of
           Inl e \<Rightarrow> (out, Inl e)
         | Inr (entropy_list, weight_list) \<Rightarrow>
             (let feature_remaining_impurity =
                    fsum fl (map2 (fmul fl) entropy_list weight_list);
                  information_gain = fsub fl target_entropy feature_remaining_impurity
              in (out @ [[Str ''impurity of partitions:'', FloatList entropy_list],
                         [Str ''weights of partitions:'', FloatList weight_list],
                         [Str ''remaining impurity:'', Float feature_remaining_impurity],
                         [Str ''information gain:'', Float information_gain],
                         [Str ''===================='']],
                  Inr information_gain))))))"

definition information_gain_of_fp ::
  "float_ops \<Rightarrow> 'a dataframe \<Rightarrow> string \<Rightarrow> string \<Rightarrow> string \<Rightarrow> error + real" where
  "information_gain_of_fp fl df target descriptive_feature split_criterion =
     snd (comp_feature_information_gain_fp fl df target descriptive_feature split_criterion)"

text \<open>
  The index of \<open>value_counts\<close>: the distinct labels, the most frequent first. The
  entry of a label, the impurity before and after rounding, the rounded weight of a
  partition and the remaining impurity, in the given arithmetic.
\<close>

definition labels_by_count :: "'a list \<Rightarrow> 'a list" where
  "labels_by_count xs =
     map fst (sort_key (\<lambda>(l, c). - int c) (map (\<lambda>l. (l, count_list xs l)) (unique xs)))"

definition prob_fp :: "float_ops \<Rightarrow> 'a list \<Rightarrow> 'a \<Rightarrow> real" where
  "prob_fp fl xs l = fdiv fl (count_list xs l) (length xs)"

definition unrounded_impurity_fp :: "float_ops \<Rightarrow> string \<Rightarrow> 'a list \<Rightarrow> real" where
  "unrounded_impurity_fp fl c xs =
     (if c = ''entropy''
      then fmul fl (- 1)
             (fsum fl (map (\<lambda>l. fmul fl (flog2 fl (prob_fp fl xs l)) (prob_fp fl xs l))
                           (labels_by_count xs)))
      else fsub fl 1 (fsum fl (map (\<lambda>l. fsquare fl (prob_fp fl xs l)) (labels_by_count xs))))"

definition impurity_fp :: "float_ops \<Rightarrow> string \<Rightarrow> 'a list \<Rightarrow> real" where
  "impurity_fp fl c xs = np_round fl (unrounded_impurity_fp fl c xs)"

definition weight_fp :: "float_ops \<Rightarrow> 'a dataframe \<Rightarrow> string \<Rightarrow> 'a \<Rightarrow> real" where
  "weight_fp fl df d level =
     py_round fl (fdiv fl (length (partition_rows df d level)) (length (rows df)))"

definition remaining_impurity_fp ::
  "float_ops \<Rightarrow> 'a dataframe \<Rightarrow> string \<Rightarrow> string \<Rightarrow> string \<Rightarrow> real" where
  "remaining_impurity_fp fl df t d c =
     fsum fl (map (\<lambda>l. fmul fl (np_round fl (impurity_fp fl c (partition_target df t d l)))
                              (weight_fp fl df d l))
                  (levels df d))"

text \<open>
  The cases in which double arithmetic is exact that are used below; each holds of
  IEEE arithmetic.
\<close>

definition ieee_exact_cases :: "float_ops \<Rightarrow> bool" where
  "ieee_exact_cases fl \<longleftrightarrow>
     (\<forall>k. 0 < k \<longrightarrow> fdiv fl k k = 1) \<and> flog2 fl 1 = 0 \<and> fsquare fl 1 = 1 \<and>
     (\<forall>x. fmul fl 0 x = 0) \<and> fmul fl (- 1) 0 = 0 \<and>
     (\<forall>x. fsum fl [x] = x) \<and> (\<forall>n. fsum fl (replicate n 0) = 0) \<and>
     (\<forall>x. fsub fl x 0 = x) \<and> fsub fl 1 1 = 0 \<and> np_round fl 0 = 0"

text \<open>
  The double nearest to a real number, ties to the even significand of 53 bits (for
  numbers in the normal range), and IEEE arithmetic on the reals that are doubles:
  every operation gives the double nearest to the exact result; adding or
  subtracting zero changes nothing; \<open>np.sum\<close> adds from left to right; \<open>round(x, 3)\<close>
  of a numpy double multiplies by 1000, rounds to an integer and divides by 1000;
  \<open>round(x, 3)\<close> of a Python float rounds the exact value of the double to three
  decimals, ties to even, and gives the double nearest to that.
\<close>

definition double_of :: "real \<Rightarrow> real" where
  "double_of x =
     (if x = 0 then 0
      else let e = \<lfloor>log 2 \<bar>x\<bar>\<rfloor> - 52
           in real_of_int (rint (x / 2 powr real_of_int e)) * 2 powr real_of_int e)"

definition fadd_ieee :: "real \<Rightarrow> real \<Rightarrow> real" where
  "fadd_ieee x y = (if x = 0 then y else if y = 0 then x else double_of (x + y))"

definition ieee_ops :: float_ops where
  "ieee_ops =
     \<lparr>fdiv = (\<lambda>a b. double_of (real a / real b)),
      fmul = (\<lambda>x y. double_of (x * y)),
      fsub = (\<lambda>x y. if y = 0 then x else double_of (x - y)),
      flog2 = (\<lambda>x. double_of (log 2 x)),
      fsquare = (\<lambda>x. double_of (x\<^sup>2)),
      fsum = foldl fadd_ieee 0,
      np_round = (\<lambda>x. double_of (real_of_int (rint (double_of (x * 1000))) / 1000)),
      py_round = (\<lambda>x. double_of (round3 x))\<rparr>"

text \<open>
  A data set of 80 rows whose partitions by \<open>d\<close> have 9 and 71 rows: both weights,
  \<open>9/80\<close> and \<open>71/80\<close>, lie on a tie of the third decimal. A data set of 40 rows whose
  column \<open>t\<close> holds 33, 5, 1 and 1 labels: its Gini index, 0.3025, lies on a tie.
\<close>

definition tie_df :: "string dataframe" where
  "tie_df =
     frame_dt (replicate 9 (''x'', ''a'') @ replicate 70 (''y'', ''a'') @ [(''y'', ''b'')])"

definition tie_target_df :: "string dataframe" where
  "tie_target_df =
     frame_dt (replicate 33 (''x'', ''a'') @ replicate 5 (''x'', ''b'')
               @ [(''x'', ''c''), (''x'', ''d'')])"

section \<open>Rounding\<close>

lemma rint_of_int: "rint (of_int k) = k"
  by (simp add: rint_def)

lemma round3_zero: "round3 0 = 0"
  by (simp add: round3_def rint_def)

lemma round3_one: "round3 1 = 1"
  using rint_of_int [of 1000] by (simp add: round3_def)

lemma round3_idem: "round3 (round3 x) = round3 x"
  by (simp add: round3_def rint_of_int)

lemma round3_eqI:
  assumes "real_of_int k - 1 / 2 < x * 1000" and "x * 1000 < real_of_int k + 1 / 2"
  shows "round3 x = real_of_int k / 1000"
proof -
  have "rint (x * 1000) = k"
  proof (cases "real_of_int k \<le> x * 1000")
    case True
    then have "\<lfloor>x * 1000\<rfloor> = k" using assms by linarith
    then show ?thesis using assms by (simp add: rint_def Let_def)
  next
    case False
    then have "\<lfloor>x * 1000\<rfloor> = k - 1" using assms by linarith
    then show ?thesis using assms False by (simp add: rint_def Let_def)
  qed
  then show ?thesis by (simp add: round3_def)
qed



section \<open>The series operations\<close>

lemma value_counts_Nil: "value_counts [] = []"
  by (simp add: value_counts_def unique_def)

lemma set_unique: "set (unique xs) = set xs"
  by (simp add: unique_def)

lemma distinct_unique: "distinct (unique xs)"
  by (simp add: unique_def)

lemma sum_list_insort_key:
  fixes h :: "'b \<Rightarrow> real"
  shows "sum_list (map h (insort_key k x ys)) = h x + sum_list (map h ys)"
  by (induction ys) auto

lemma sum_list_sort_key:
  fixes h :: "'b \<Rightarrow> real"
  shows "sum_list (map h (sort_key k ys)) = sum_list (map h ys)"
  by (induction ys) (auto simp: sum_list_insort_key)

lemma sum_value_counts:
  fixes f :: "real \<Rightarrow> real"
  shows "sum_list (map (f \<circ> snd) (value_counts xs)) = (\<Sum>l\<in>set xs. f (rel_freq xs l))"
proof -
  have "sum_list (map (f \<circ> snd) (value_counts xs))
      = sum_list (map (\<lambda>(l, c). f (real c / real (length xs)))
          (sort_key (\<lambda>(l, c). - int c) (map (\<lambda>l. (l, count_list xs l)) (unique xs))))"
    by (simp add: value_counts_def comp_def case_prod_unfold)
  also have "\<dots> = sum_list (map (\<lambda>(l, c). f (real c / real (length xs)))
          (map (\<lambda>l. (l, count_list xs l)) (unique xs)))"
    by (simp only: sum_list_sort_key)
  also have "\<dots> = sum_list (map (\<lambda>l. f (rel_freq xs l)) (unique xs))"
    by (simp add: comp_def rel_freq_def)
  also have "\<dots> = (\<Sum>l\<in>set xs. f (rel_freq xs l))"
    using sum_list_distinct_conv_sum_set [OF distinct_unique, of "\<lambda>l. f (rel_freq xs l)" xs]
    by (simp add: set_unique)
  finally show ?thesis .
qed

lemma compute_impurity_entropy:
  "compute_impurity xs ''entropy'' = Inr (round3 (spec_entropy xs))"
  by (simp add: compute_impurity_def sum_value_counts spec_entropy_def mult.commute)

lemma compute_impurity_gini:
  "compute_impurity xs ''gini'' = Inr (round3 (spec_gini xs))"
  by (simp add: compute_impurity_def sum_value_counts spec_gini_def)


lemma compute_impurity_value:
  "c = ''entropy'' \<or> c = ''gini'' \<Longrightarrow> compute_impurity xs c = Inr (impurity_value c xs)"
  by (auto simp: impurity_value_def unrounded_impurity_def
      compute_impurity_entropy compute_impurity_gini)

lemma round3_impurity_value: "round3 (impurity_value c xs) = impurity_value c xs"
  by (simp add: impurity_value_def round3_idem)

section \<open>The loop and the function, on valid input\<close>

lemma set_levels: "set (levels df d) = set (column df d)"
  by (simp add: levels_def set_unique)

lemma distinct_levels: "distinct (levels df d)"
  by (simp add: levels_def distinct_unique)

lemma levels_empty: "rows df = [] \<Longrightarrow> levels df d = []"
  by (simp add: levels_def column_def unique_def)

lemma getitem_column: "c \<in> set (columns df) \<Longrightarrow> getitem df c = Inr (column df c)"
  by (simp add: getitem_def column_def)

lemma partition_loop_eq:
  assumes "t \<in> set (columns df)" and "d \<in> set (columns df)"
    and "c = ''entropy'' \<or> c = ''gini''" and "ls = [] \<or> rows df \<noteq> []"
  shows "partition_loop df t d c ls (el, wl)
       = Inr (el @ map (\<lambda>l. impurity_value c (partition_target df t d l)) ls,
              wl @ map (\<lambda>l. round3 (partition_weight df d l)) ls)"
  using assms
proof (induction ls arbitrary: el wl)
  case Nil
  show ?case by simp
next
  case (Cons l ls)
  from Cons.prems have ne: "rows df \<noteq> []" by simp
  have sel: "select_eq df d l = Inr (df\<lparr>rows := partition_rows df d l\<rparr>)"
    using Cons.prems by (simp add: select_eq_def partition_rows_def)
  have gi: "getitem (df\<lparr>rows := partition_rows df d l\<rparr>) t = Inr (partition_target df t d l)"
    using Cons.prems by (simp add: getitem_def partition_target_def)
  have ci: "compute_impurity (partition_target df t d l) c
          = Inr (impurity_value c (partition_target df t d l))"
    using Cons.prems by (simp add: compute_impurity_value)
  have td: "truediv (len (df\<lparr>rows := partition_rows df d l\<rparr>)) (len df)
          = Inr (partition_weight df d l)"
    using ne by (simp add: truediv_def len_def partition_weight_def)
  have ih: "partition_loop df t d c ls (el', wl')
       = Inr (el' @ map (\<lambda>l. impurity_value c (partition_target df t d l)) ls,
              wl' @ map (\<lambda>l. round3 (partition_weight df d l)) ls)" for el' wl'
    using Cons.IH [of el' wl'] Cons.prems ne by simp
  show ?case
    by (simp add: sel gi ci td ih round3_impurity_value)
qed

lemma sum_list_map2_map:
  fixes f g :: "'a \<Rightarrow> real"
  shows "sum_list (map2 (*) (map f xs) (map g xs)) = (\<Sum>x\<leftarrow>xs. f x * g x)"
  by (induction xs) auto

lemma comp_feature_information_gain_eq:
  assumes "t \<in> set (columns df)" and "d \<in> set (columns df)"
    and "c = ''entropy'' \<or> c = ''gini''"
  shows "comp_feature_information_gain df t d c =
     ([[Str ''target feature:'', Str t],
       [Str ''descriptive_feature:'', Str d],
       [Str ''split criterion:'', Str c],
       [Str ''impurity of partitions:'',
          FloatList (map (\<lambda>l. impurity_value c (partition_target df t d l)) (levels df d))],
       [Str ''weights of partitions:'',
          FloatList (map (\<lambda>l. round3 (partition_weight df d l)) (levels df d))],
       [Str ''remaining impurity:'', Float (remaining_impurity df t d c)],
       [Str ''information gain:'',
          Float (impurity_value c (column df t) - remaining_impurity df t d c)],
       [Str ''===================='']],
      Inr (impurity_value c (column df t) - remaining_impurity df t d c))"
proof -
  have lv: "levels df d = [] \<or> rows df \<noteq> []"
    by (cases "rows df") (simp_all add: levels_empty)
  have ci: "compute_impurity (column df t) c = Inr (impurity_value c (column df t))"
    using assms by (simp add: compute_impurity_value)
  have pl: "partition_loop df t d c (unique (column df d)) ([], [])
     = Inr (map (\<lambda>l. impurity_value c (partition_target df t d l)) (levels df d),
            map (\<lambda>l. round3 (partition_weight df d l)) (levels df d))"
    using partition_loop_eq [OF assms lv, of "[]" "[]"] by (simp add: levels_def)
  show ?thesis
    unfolding comp_feature_information_gain_def
    by (simp add: getitem_column assms ci pl sum_list_map2_map remaining_impurity_def Let_def)
qed

lemma information_gain_of_eq:
  assumes "t \<in> set (columns df)" and "d \<in> set (columns df)"
    and "c = ''entropy'' \<or> c = ''gini''"
  shows "information_gain_of df t d c
       = Inr (impurity_value c (column df t) - remaining_impurity df t d c)"
  by (simp add: information_gain_of_def comp_feature_information_gain_eq [OF assms])

lemma remaining_impurity_set:
  "remaining_impurity df t d c =
     (\<Sum>l\<in>set (column df d).
        impurity_value c (partition_target df t d l) * round3 (partition_weight df d l))"
  unfolding remaining_impurity_def
  using sum_list_distinct_conv_sum_set [OF distinct_levels,
      of "\<lambda>l. impurity_value c (partition_target df t d l) * round3 (partition_weight df d l)" df d]
  by (simp add: set_levels)

lemma impurity_value_gini_code:
  "impurity_value ''gini'' xs = round3 (1 - sum_list (map (\<lambda>p. p\<^sup>2) (map snd (value_counts xs))))"
  by (simp add: impurity_value_def unrounded_impurity_def spec_gini_def sum_value_counts)

lemma impurity_value_entropy_code:
  "impurity_value ''entropy'' xs
     = round3 (- 1 * sum_list (map (\<lambda>p. log 2 p * p) (map snd (value_counts xs))))"
  by (simp add: impurity_value_def unrounded_impurity_def spec_entropy_def sum_value_counts mult.commute)


section \<open>compute\_impurity: exceptions\<close>

text \<open>
  C5. For every label sequence and every criterion string other than \<open>'entropy'\<close> and
  \<open>'gini'\<close>, \<open>compute_impurity\<close> raises (\<open>ValueError('Unknown impurity criterion')\<close>)
  and returns no impurity value.
\<close>

theorem compute_impurity_unknown_criterion:
  assumes "impurity_criterion \<noteq> ''entropy''" and "impurity_criterion \<noteq> ''gini''"
  shows "compute_impurity feature impurity_criterion
           = Inl (ValueError ''Unknown impurity criterion'')"
  using assms by (simp add: compute_impurity_def)

theorem compute_impurity_unknown_criterion_witness:
  "''foo'' \<noteq> ''entropy'' \<and> ''foo'' \<noteq> ''gini'' \<and>
   compute_impurity [''a'', ''b''] ''foo'' = Inl (ValueError ''Unknown impurity criterion'')"
  using compute_impurity_unknown_criterion [of "''foo''" "[''a'', ''b'']"] by simp

text \<open>
  C4, as the code has it. Called with an empty label sequence, \<open>compute_impurity\<close>
  raises nothing: the distribution is empty, both sums are empty, and the function
  returns 0 for \<open>'entropy'\<close> and 1 for \<open>'gini'\<close>.
\<close>

theorem compute_impurity_empty:
  "compute_impurity [] ''entropy'' = Inr 0 \<and> compute_impurity [] ''gini'' = Inr 1"
  by (simp add: compute_impurity_def value_counts_Nil round3_zero round3_one)

text \<open>
  C4, as the specification has it, fails: on the empty sequence of strings the call
  with \<open>'entropy'\<close> returns the number 0.
\<close>

theorem compute_impurity_empty_counterexample:
  "compute_impurity ([] :: string list) ''entropy'' = Inr 0"
  by (simp add: compute_impurity_def value_counts_Nil round3_zero)

section \<open>comp\_feature\_information\_gain: the empty data set\<close>

lemma impurity_value_Nil:
  "impurity_value ''entropy'' [] = 0" "impurity_value ''gini'' [] = 1"
  by (simp_all add: impurity_value_def unrounded_impurity_def spec_entropy_def spec_gini_def
      round3_zero round3_one)

text \<open>
  C6, as the code has it. On a data set with zero rows whose columns include the two
  attributes, \<open>comp_feature_information_gain\<close> raises nothing: the target column and
  the list of levels are empty, the loop body never runs (so nothing is divided by
  the zero length), and the function returns 0 for \<open>'entropy'\<close> and 1 for \<open>'gini'\<close>.
\<close>

theorem information_gain_empty_dataset:
  assumes "rows df = []" and "t \<in> set (columns df)" and "d \<in> set (columns df)"
  shows "information_gain_of df t d ''entropy'' = Inr 0 \<and>
         information_gain_of df t d ''gini'' = Inr 1"
  using assms
  by (simp add: information_gain_of_eq remaining_impurity_def levels_empty column_def
      impurity_value_Nil)

theorem information_gain_empty_dataset_witness:
  "rows (vegetation_df\<lparr>rows := []\<rparr>) = [] \<and>
   ''vegetation'' \<in> set (columns (vegetation_df\<lparr>rows := []\<rparr>)) \<and>
   ''elevation'' \<in> set (columns (vegetation_df\<lparr>rows := []\<rparr>)) \<and>
   information_gain_of (vegetation_df\<lparr>rows := []\<rparr>) ''vegetation'' ''elevation'' ''entropy''
     = Inr 0 \<and>
   information_gain_of (vegetation_df\<lparr>rows := []\<rparr>) ''vegetation'' ''elevation'' ''gini''
     = Inr 1"
  using information_gain_empty_dataset
    [of "vegetation_df\<lparr>rows := []\<rparr>" "''vegetation''" "''elevation''"]
  by (simp add: vegetation_df_def)

text \<open>
  C6, as the specification has it, fails: on the vegetation data frame without its
  rows the call returns the gain 0 and raises nothing.
\<close>

theorem information_gain_empty_dataset_counterexample:
  "comp_feature_information_gain (vegetation_df\<lparr>rows := []\<rparr>)
       ''vegetation'' ''elevation'' ''entropy''
   = ([[Str ''target feature:'', Str ''vegetation''],
       [Str ''descriptive_feature:'', Str ''elevation''],
       [Str ''split criterion:'', Str ''entropy''],
       [Str ''impurity of partitions:'', FloatList []],
       [Str ''weights of partitions:'', FloatList []],
       [Str ''remaining impurity:'', Float 0],
       [Str ''information gain:'', Float 0],
       [Str ''===================='']],
      Inr 0)"
  by (simp add: comp_feature_information_gain_def vegetation_df_def getitem_def unique_def
      compute_impurity_def value_counts_Nil round3_zero)

section \<open>The vegetation example, evaluated\<close>

subsection \<open>Columns, levels and partitions of the vegetation data set\<close>

lemma veg_columns:
  "''vegetation'' \<in> set (columns vegetation_df)" "''stream'' \<in> set (columns vegetation_df)"
  "''slope'' \<in> set (columns vegetation_df)" "''elevation'' \<in> set (columns vegetation_df)"
  by (simp_all add: vegetation_df_def)

lemma veg_target:
  "column vegetation_df ''vegetation'' =
     [S ''chapparal'', S ''riparian'', S ''riparian'', S ''chapparal'', S ''conifer'', S ''conifer'', S ''chapparal'']"
  by (simp add: column_def vegetation_df_def veg_row_def)

lemma veg_levels:
  "levels vegetation_df ''stream'' = [B False, B True]"
  "levels vegetation_df ''slope'' = [S ''steep'', S ''moderate'', S ''flat'']"
  "levels vegetation_df ''elevation'' = [S ''high'', S ''low'', S ''medium'', S ''highest'']"
  by (simp_all add: levels_def unique_def column_def vegetation_df_def veg_row_def)

lemma veg_partition_target:
  "partition_target vegetation_df ''vegetation'' ''stream'' (B False) =
     [S ''chapparal'', S ''chapparal'', S ''conifer'']"
  "partition_target vegetation_df ''vegetation'' ''stream'' (B True) =
     [S ''riparian'', S ''riparian'', S ''conifer'', S ''chapparal'']"
  "partition_target vegetation_df ''vegetation'' ''slope'' (S ''steep'') =
     [S ''chapparal'', S ''riparian'', S ''chapparal'', S ''conifer'', S ''chapparal'']"
  "partition_target vegetation_df ''vegetation'' ''slope'' (S ''moderate'') =
     [S ''riparian'']"
  "partition_target vegetation_df ''vegetation'' ''slope'' (S ''flat'') =
     [S ''conifer'']"
  "partition_target vegetation_df ''vegetation'' ''elevation'' (S ''high'') =
     [S ''chapparal'', S ''conifer'', S ''chapparal'']"
  "partition_target vegetation_df ''vegetation'' ''elevation'' (S ''low'') =
     [S ''riparian'']"
  "partition_target vegetation_df ''vegetation'' ''elevation'' (S ''medium'') =
     [S ''riparian'', S ''chapparal'']"
  "partition_target vegetation_df ''vegetation'' ''elevation'' (S ''highest'') =
     [S ''conifer'']"
  by (simp_all add: partition_target_def partition_rows_def vegetation_df_def veg_row_def)

lemma veg_partition_weight:
  "partition_weight vegetation_df ''stream'' (B False) = 3 / 7"
  "partition_weight vegetation_df ''stream'' (B True) = 4 / 7"
  "partition_weight vegetation_df ''slope'' (S ''steep'') = 5 / 7"
  "partition_weight vegetation_df ''slope'' (S ''moderate'') = 1 / 7"
  "partition_weight vegetation_df ''slope'' (S ''flat'') = 1 / 7"
  "partition_weight vegetation_df ''elevation'' (S ''high'') = 3 / 7"
  "partition_weight vegetation_df ''elevation'' (S ''low'') = 1 / 7"
  "partition_weight vegetation_df ''elevation'' (S ''medium'') = 2 / 7"
  "partition_weight vegetation_df ''elevation'' (S ''highest'') = 1 / 7"
  by (simp_all add: partition_weight_def partition_rows_def vegetation_df_def veg_row_def)

lemma round3_sevenths:
  "round3 (1 / 7) = 143 / 1000" "round3 (2 / 7) = 286 / 1000" "round3 (3 / 7) = 429 / 1000"
  "round3 (4 / 7) = 571 / 1000" "round3 (5 / 7) = 714 / 1000"
  by (simp_all add: round3_def rint_def)

subsection \<open>Bounds on logarithms\<close>

lemma log2_gt:
  fixes x :: real
  assumes "0 < x" and "0 < b" and "(2::real) ^ a < x ^ b"
  shows "real a / real b < log 2 x"
proof -
  have "log 2 (2 ^ a) < log 2 (x ^ b)"
    using assms by (simp del: log_pow_cancel)
  then have "real a < real b * log 2 x"
    using assms by (simp add: log_nat_power)
  then show ?thesis
    using assms by (simp add: field_simps)
qed

lemma log2_lt:
  fixes x :: real
  assumes "0 < x" and "0 < b" and "x ^ b < (2::real) ^ a"
  shows "log 2 x < real a / real b"
proof -
  have "log 2 (x ^ b) < log 2 (2 ^ a)"
    using assms by (simp del: log_pow_cancel)
  then have "real b * log 2 x < real a"
    using assms by (simp add: log_nat_power)
  then show ?thesis
    using assms by (simp add: field_simps)
qed

lemma log2_3_lower: "84 / 53 < log 2 3"
  using log2_gt [of 3 53 84] by simp
lemma log2_3_upper: "log 2 3 < 485 / 306"
  using log2_lt [of 3 306 485] by simp
lemma log2_7_lower: "306 / 109 < log 2 7"
  using log2_gt [of 7 109 306] by simp
lemma log2_7_upper: "log 2 7 < 73 / 26"
  using log2_lt [of 7 26 73] by simp
lemma log2_5_lower: "202 / 87 < log 2 5"
  using log2_gt [of 5 87 202] by simp
lemma log2_5_upper: "log 2 5 < 137 / 59"
  using log2_lt [of 5 59 137] by simp

lemma log2_frac: "log 2 (3 / 7) = log 2 3 - log 2 7" "log 2 (2 / 7) = 1 - log 2 7"
  "log 2 (2 / 3) = 1 - log 2 3" "log 2 (1 / 3) = - log 2 3"
  "log 2 (3 / 5) = log 2 3 - log 2 5" "log 2 (1 / 5) = - log 2 5"
  "log 2 (1 / 2) = - 1" "log 2 (1 / 4) = - 2"
proof -
  have l4: "log 2 4 = 2"
    using log_pow_cancel [of 2 2] by simp
  show "log 2 (3 / 7) = log 2 3 - log 2 7" "log 2 (2 / 7) = 1 - log 2 7"
  "log 2 (2 / 3) = 1 - log 2 3" "log 2 (1 / 3) = - log 2 3"
  "log 2 (3 / 5) = log 2 3 - log 2 5" "log 2 (1 / 5) = - log 2 5"
  "log 2 (1 / 2) = - 1" "log 2 (1 / 4) = - 2"
    by (simp_all add: log_divide l4)
qed

text \<open>counts 3, 2, 2 of 7\<close>
lemma round3_entropy_322:
  "round3 (log 2 7 - 3 / 7 * log 2 3 - 4 / 7) = 1557 / 1000"
  using round3_eqI [of 1557 "log 2 7 - 3 / 7 * log 2 3 - 4 / 7"]
    log2_3_lower log2_3_upper log2_7_lower log2_7_upper by simp

text \<open>counts 2, 1 of 3\<close>
lemma round3_entropy_21:
  "round3 (log 2 3 - 2 / 3) = 918 / 1000"
  using round3_eqI [of 918 "log 2 3 - 2 / 3"] log2_3_lower log2_3_upper by simp

text \<open>counts 3, 1, 1 of 5\<close>
lemma round3_entropy_311:
  "round3 (log 2 5 - 3 / 5 * log 2 3) = 1371 / 1000"
  using round3_eqI [of 1371 "log 2 5 - 3 / 5 * log 2 3"]
    log2_3_lower log2_3_upper log2_5_lower log2_5_upper by simp


subsection \<open>Impurities of the vegetation column and of its partitions\<close>

lemma veg_entropy:
  "impurity_value ''entropy'' [S ''riparian'', S ''riparian'', S ''conifer'', S ''chapparal''] = 3 / 2"
  "impurity_value ''entropy'' [S ''riparian'', S ''chapparal''] = 1"
  "impurity_value ''entropy'' [S ''riparian''] = 0"
  "impurity_value ''entropy'' [S ''conifer''] = 0"
  by (simp_all add: impurity_value_entropy_code value_counts_def unique_def log2_frac
      round3_def rint_def)

lemma veg_entropy_target:
  "impurity_value ''entropy'' [S ''chapparal'', S ''riparian'', S ''riparian'', S ''chapparal'', S ''conifer'', S ''conifer'', S ''chapparal''] = 1557 / 1000"
proof -
  have "impurity_value ''entropy'' [S ''chapparal'', S ''riparian'', S ''riparian'', S ''chapparal'', S ''conifer'', S ''conifer'', S ''chapparal'']
      = round3 (log 2 7 - 3 / 7 * log 2 3 - 4 / 7)"
    by (simp add: impurity_value_entropy_code value_counts_def unique_def log2_frac algebra_simps)
  then show ?thesis by (simp only: round3_entropy_322)
qed

lemma veg_entropy_stream_False:
  "impurity_value ''entropy'' [S ''chapparal'', S ''chapparal'', S ''conifer''] = 918 / 1000"
proof -
  have "impurity_value ''entropy'' [S ''chapparal'', S ''chapparal'', S ''conifer'']
      = round3 (log 2 3 - 2 / 3)"
    by (simp add: impurity_value_entropy_code value_counts_def unique_def log2_frac algebra_simps)
  then show ?thesis by (simp only: round3_entropy_21)
qed

lemma veg_entropy_elevation_high:
  "impurity_value ''entropy'' [S ''chapparal'', S ''conifer'', S ''chapparal''] = 918 / 1000"
proof -
  have "impurity_value ''entropy'' [S ''chapparal'', S ''conifer'', S ''chapparal'']
      = round3 (log 2 3 - 2 / 3)"
    by (simp add: impurity_value_entropy_code value_counts_def unique_def log2_frac algebra_simps)
  then show ?thesis by (simp only: round3_entropy_21)
qed

lemma veg_entropy_slope_steep:
  "impurity_value ''entropy'' [S ''chapparal'', S ''riparian'', S ''chapparal'', S ''conifer'', S ''chapparal''] = 1371 / 1000"
proof -
  have "impurity_value ''entropy'' [S ''chapparal'', S ''riparian'', S ''chapparal'', S ''conifer'', S ''chapparal'']
      = round3 (log 2 5 - 3 / 5 * log 2 3)"
    by (simp add: impurity_value_entropy_code value_counts_def unique_def log2_frac algebra_simps)
  then show ?thesis by (simp only: round3_entropy_311)
qed

lemma veg_gini:
  "impurity_value ''gini'' [S ''chapparal'', S ''riparian'', S ''riparian'', S ''chapparal'', S ''conifer'', S ''conifer'', S ''chapparal''] = 653 / 1000"
  "impurity_value ''gini'' [S ''chapparal'', S ''chapparal'', S ''conifer''] = 444 / 1000"
  "impurity_value ''gini'' [S ''riparian'', S ''riparian'', S ''conifer'', S ''chapparal''] = 625 / 1000"
  by (simp_all add: impurity_value_gini_code value_counts_def unique_def power2_eq_square
      round3_def rint_def)

lemmas veg_facts =
  veg_columns veg_target veg_levels veg_partition_target veg_partition_weight round3_sevenths
  veg_entropy veg_entropy_target veg_entropy_stream_False veg_entropy_elevation_high
  veg_entropy_slope_steep veg_gini

lemma veg_remaining_entropy:
  "remaining_impurity vegetation_df ''vegetation'' ''elevation'' ''entropy'' = 679822 / 1000000"
  "remaining_impurity vegetation_df ''vegetation'' ''stream'' ''entropy'' = 1250322 / 1000000"
  "remaining_impurity vegetation_df ''vegetation'' ''slope'' ''entropy'' = 978894 / 1000000"
  unfolding remaining_impurity_def veg_levels list.map
  by (simp_all add: veg_facts)

lemma veg_remaining_gini:
  "remaining_impurity vegetation_df ''vegetation'' ''stream'' ''gini'' = 547351 / 1000000"
  "spec_remaining_impurity vegetation_df ''vegetation'' ''stream'' ''gini'' = 479 / 875"
  unfolding remaining_impurity_def spec_remaining_impurity_def veg_levels list.map
  by (simp_all add: veg_facts)

lemma veg_spec_remaining_entropy:
  "spec_remaining_impurity vegetation_df ''vegetation'' ''elevation'' ''entropy'' = 2377 / 3500"
  unfolding spec_remaining_impurity_def veg_levels list.map
  by (simp add: veg_facts)

section \<open>The vegetation example: the gains\<close>

text \<open>
  C2, as the specification has it, fails. On the vegetation data set, with
  descriptive attribute \<open>stream\<close> and criterion \<open>'gini'\<close>, the function returns 0.105649
  (the figure of the notebook's output), while the target impurity minus the
  impurities weighted by \<open>|partition| / |dataset|\<close> is \<open>0.653 - 479/875\<close>, about
  0.105571: the code weights the two partitions by 0.429 and 0.571, not by 3/7 and
  4/7.
\<close>

theorem information_gain_weighted_sum_counterexample:
  "information_gain_of vegetation_df ''vegetation'' ''stream'' ''gini'' = Inr (105649 / 1000000) \<and>
   impurity_value ''gini'' (column vegetation_df ''vegetation'')
     - spec_remaining_impurity vegetation_df ''vegetation'' ''stream'' ''gini''
     = 653 / 1000 - 479 / 875 \<and>
   information_gain_of vegetation_df ''vegetation'' ''stream'' ''gini'' \<noteq>
     Inr (impurity_value ''gini'' (column vegetation_df ''vegetation'')
          - spec_remaining_impurity vegetation_df ''vegetation'' ''stream'' ''gini'')"
  by (simp add: information_gain_of_eq veg_facts veg_remaining_gini)

text \<open>
  C3, as the code has it. On the vegetation data set with criterion \<open>'entropy'\<close> the
  target impurity is 1.557; for \<open>elevation\<close> the function prints the partition
  impurities 0.918, 0, 1, 0 and the weights 0.429, 0.143, 0.286, 0.143, the remaining
  impurity 0.679822 and the gain 0.877178, which it returns; for \<open>stream\<close> it returns
  0.306678 and for \<open>slope\<close> 0.578106. To three decimals the remaining impurity of
  \<open>elevation\<close> is 0.680 and the gains are 0.877, 0.307 and 0.578, so \<open>elevation\<close> has
  the highest gain.
\<close>

theorem vegetation_entropy_gain:
  "compute_impurity (column vegetation_df ''vegetation'') ''entropy'' = Inr (1557 / 1000) \<and>
   comp_feature_information_gain vegetation_df ''vegetation'' ''elevation'' ''entropy''
   = ([[Str ''target feature:'', Str ''vegetation''],
       [Str ''descriptive_feature:'', Str ''elevation''],
       [Str ''split criterion:'', Str ''entropy''],
       [Str ''impurity of partitions:'', FloatList [918 / 1000, 0, 1, 0]],
       [Str ''weights of partitions:'',
          FloatList [429 / 1000, 143 / 1000, 286 / 1000, 143 / 1000]],
       [Str ''remaining impurity:'', Float (679822 / 1000000)],
       [Str ''information gain:'', Float (877178 / 1000000)],
       [Str ''===================='']],
      Inr (877178 / 1000000)) \<and>
   information_gain_of vegetation_df ''vegetation'' ''stream'' ''entropy''
     = Inr (306678 / 1000000) \<and>
   information_gain_of vegetation_df ''vegetation'' ''slope'' ''entropy''
     = Inr (578106 / 1000000) \<and>
   round3 (remaining_impurity vegetation_df ''vegetation'' ''elevation'' ''entropy'')
     = 680 / 1000 \<and>
   map (\<lambda>d. round3 (impurity_value ''entropy'' (column vegetation_df ''vegetation'')
                      - remaining_impurity vegetation_df ''vegetation'' d ''entropy''))
       [''elevation'', ''stream'', ''slope'']
     = [877 / 1000, 307 / 1000, 578 / 1000]"
proof -
  have 1: "compute_impurity (column vegetation_df ''vegetation'') ''entropy''
         = Inr (1557 / 1000)"
    by (simp add: compute_impurity_value veg_target veg_entropy_target)
  have 2: "comp_feature_information_gain vegetation_df ''vegetation'' ''elevation'' ''entropy''
   = ([[Str ''target feature:'', Str ''vegetation''],
       [Str ''descriptive_feature:'', Str ''elevation''],
       [Str ''split criterion:'', Str ''entropy''],
       [Str ''impurity of partitions:'', FloatList [918 / 1000, 0, 1, 0]],
       [Str ''weights of partitions:'',
          FloatList [429 / 1000, 143 / 1000, 286 / 1000, 143 / 1000]],
       [Str ''remaining impurity:'', Float (679822 / 1000000)],
       [Str ''information gain:'', Float (877178 / 1000000)],
       [Str ''===================='']],
      Inr (877178 / 1000000))"
    by (simp add: comp_feature_information_gain_eq veg_facts veg_remaining_entropy)
  have 3: "information_gain_of vegetation_df ''vegetation'' ''stream'' ''entropy''
         = Inr (306678 / 1000000)"
    "information_gain_of vegetation_df ''vegetation'' ''slope'' ''entropy''
         = Inr (578106 / 1000000)"
    by (simp_all add: information_gain_of_eq veg_facts veg_remaining_entropy)
  have 4: "round3 (remaining_impurity vegetation_df ''vegetation'' ''elevation'' ''entropy'')
         = 680 / 1000"
    "map (\<lambda>d. round3 (impurity_value ''entropy'' (column vegetation_df ''vegetation'')
                      - remaining_impurity vegetation_df ''vegetation'' d ''entropy''))
       [''elevation'', ''stream'', ''slope'']
     = [877 / 1000, 307 / 1000, 578 / 1000]"
    by (simp_all add: veg_facts veg_remaining_entropy round3_def rint_def)
  show ?thesis
    using 1 2 3 4 by (intro conjI)
qed

text \<open>
  C3, as the specification has it, fails in two figures. For \<open>elevation\<close> the remaining
  impurity and the returned gain are not 0.679 and 0.878 to three decimals: those
  are the figures of the unrounded weights 3/7, 1/7, 2/7, 1/7, which the code does
  not use.
\<close>

theorem vegetation_entropy_gain_counterexample:
  "information_gain_of vegetation_df ''vegetation'' ''elevation'' ''entropy''
     = Inr (877178 / 1000000) \<and>
   round3 (877178 / 1000000) \<noteq> 878 / 1000 \<and>
   round3 (remaining_impurity vegetation_df ''vegetation'' ''elevation'' ''entropy'')
     \<noteq> 679 / 1000 \<and>
   round3 (spec_remaining_impurity vegetation_df ''vegetation'' ''elevation'' ''entropy'')
     = 679 / 1000 \<and>
   round3 (impurity_value ''entropy'' (column vegetation_df ''vegetation'')
           - spec_remaining_impurity vegetation_df ''vegetation'' ''elevation'' ''entropy'')
     = 878 / 1000"
  by (simp add: information_gain_of_eq veg_facts veg_remaining_entropy
      veg_spec_remaining_entropy round3_def rint_def)

section \<open>The distribution of a label sequence, and impurity zero\<close>

lemma count_list_replicate: "count_list (replicate n x) y = (if x = y then n else 0)"
  by (induction n) auto















section \<open>compute\_impurity: zero impurity\<close>




section \<open>compute\_impurity: the notebook's fruit basket\<close>

lemma fruits_impurity:
  "impurity_value ''entropy''
     [''apple'', ''apple'', ''apple'', ''orange'', ''orange'', ''banana'', ''banana'']
   = 1557 / 1000"
  "impurity_value ''gini''
     [''apple'', ''apple'', ''apple'', ''orange'', ''orange'', ''banana'', ''banana'']
   = 653 / 1000"
proof -
  have "impurity_value ''entropy''
     [''apple'', ''apple'', ''apple'', ''orange'', ''orange'', ''banana'', ''banana'']
      = round3 (log 2 7 - 3 / 7 * log 2 3 - 4 / 7)"
    by (simp add: impurity_value_entropy_code value_counts_def unique_def log2_frac algebra_simps)
  then show "impurity_value ''entropy''
     [''apple'', ''apple'', ''apple'', ''orange'', ''orange'', ''banana'', ''banana'']
   = 1557 / 1000"
    by (simp only: round3_entropy_322)
  show "impurity_value ''gini''
     [''apple'', ''apple'', ''apple'', ''orange'', ''orange'', ''banana'', ''banana'']
   = 653 / 1000"
    by (simp add: impurity_value_gini_code value_counts_def unique_def power2_eq_square
        round3_def rint_def)
qed

section \<open>comp\_feature\_information\_gain: the returned value alone\<close>

text \<open>
  C7, as the specification has it, fails: the returned value does not hold the target
  impurity. On two data sets of two rows the function returns the same number 0,
  while the target impurities are 0 and 0.5.
\<close>

theorem information_gain_report_counterexample:
  "information_gain_of (frame_dt [(''x'', ''a''), (''x'', ''a'')]) ''t'' ''d'' ''gini'' = Inr 0 \<and>
   information_gain_of (frame_dt [(''x'', ''a''), (''x'', ''b'')]) ''t'' ''d'' ''gini'' = Inr 0 \<and>
   compute_impurity (column (frame_dt [(''x'', ''a''), (''x'', ''a'')]) ''t'') ''gini'' = Inr 0 \<and>
   compute_impurity (column (frame_dt [(''x'', ''a''), (''x'', ''b'')]) ''t'') ''gini'' = Inr (1 / 2)"
  by (simp add: information_gain_of_def comp_feature_information_gain_def frame_dt_def
      getitem_def select_eq_def len_def truediv_def unique_def column_def Let_def
      compute_impurity_def value_counts_def power2_eq_square round3_def rint_def)

section \<open>Partitions by the target attribute\<close>

lemma partition_target_self:
  "partition_target df t t l = replicate (length (partition_rows df t l)) l"
  unfolding partition_target_def partition_rows_def
  by (induction "rows df" arbitrary: df) (auto simp: map_replicate_const [symmetric] intro: replicate_eqI)

lemma homogeneous_replicate: "homogeneous (replicate n l)"
  by (simp add: homogeneous_def)

lemma partition_self_nonempty:
  assumes "l \<in> set (levels df t)"
  shows "partition_target df t t l \<noteq> []"
proof -
  from assms obtain r where "r \<in> set (rows df)" and "r t = l"
    by (auto simp: set_levels column_def)
  then have "r \<in> set (partition_rows df t l)"
    by (simp add: partition_rows_def)
  then show ?thesis
    by (auto simp: partition_target_def)
qed

section \<open>Double arithmetic: the distribution and the exact instance\<close>

lemma labels_by_count_set: "set (labels_by_count xs) = set xs"
  by (simp add: labels_by_count_def set_unique image_image)

lemma labels_by_count_distinct: "distinct (labels_by_count xs)"
  unfolding labels_by_count_def
  by (simp add: distinct_map distinct_unique inj_on_def)

lemma value_counts_fp_eq:
  "value_counts_fp fl xs = map (\<lambda>l. (l, prob_fp fl xs l)) (labels_by_count xs)"
proof -
  let ?zs = "sort_key (\<lambda>(l, c). - int c) (map (\<lambda>l. (l, count_list xs l)) (unique xs))"
  have "\<And>p. p \<in> set ?zs \<Longrightarrow> snd p = count_list xs (fst p)"
    by auto
  then have "map (\<lambda>(l, c). (l, fdiv fl c (length xs))) ?zs
           = map (\<lambda>p. (fst p, prob_fp fl xs (fst p))) ?zs"
    by (intro map_cong) (auto simp: prob_fp_def case_prod_unfold)
  then show ?thesis
    by (simp add: value_counts_fp_def labels_by_count_def comp_def)
qed

lemma compute_impurity_fp_value:
  "c = ''entropy'' \<or> c = ''gini'' \<Longrightarrow> compute_impurity_fp fl xs c = Inr (impurity_fp fl c xs)"
  by (auto simp: compute_impurity_fp_def value_counts_fp_eq impurity_fp_def
      unrounded_impurity_fp_def comp_def)

lemma exact_sel:
  "fdiv exact_ops = (\<lambda>a b. real a / real b)" "fmul exact_ops = (*)" "fsub exact_ops = (-)"
  "flog2 exact_ops = log 2" "fsquare exact_ops = (\<lambda>p. p\<^sup>2)" "fsum exact_ops = sum_list"
  "np_round exact_ops = round3" "py_round exact_ops = round3"
  by (simp_all add: exact_ops_def)

lemma value_counts_exact: "value_counts_fp exact_ops xs = value_counts xs"
  by (simp add: value_counts_fp_def value_counts_def exact_sel)

lemma compute_impurity_exact: "compute_impurity_fp exact_ops xs c = compute_impurity xs c"
  by (simp add: compute_impurity_fp_def compute_impurity_def value_counts_exact exact_sel
      Let_def)

lemma truediv_exact: "truediv_fp exact_ops a b = truediv a b"
  by (simp add: truediv_fp_def truediv_def exact_sel)

lemma partition_loop_exact:
  "partition_loop_fp exact_ops df t d c ls acc = partition_loop df t d c ls acc"
proof (induction ls arbitrary: acc)
  case Nil
  show ?case by (cases acc) simp
next
  case (Cons l ls)
  show ?case
    by (cases acc)
      (simp add: compute_impurity_exact truediv_exact Cons.IH exact_sel split: sum.splits)
qed

lemma comp_feature_information_gain_exact:
  "comp_feature_information_gain_fp exact_ops df t d c = comp_feature_information_gain df t d c"
  by (simp add: comp_feature_information_gain_fp_def comp_feature_information_gain_def
      compute_impurity_exact partition_loop_exact exact_sel Let_def
      split: sum.splits prod.splits)

lemma information_gain_of_exact:
  "information_gain_of_fp exact_ops df t d c = information_gain_of df t d c"
  by (simp add: information_gain_of_fp_def information_gain_of_def
      comp_feature_information_gain_exact)

lemma impurity_exact:
  "c = ''entropy'' \<or> c = ''gini'' \<Longrightarrow> impurity_fp exact_ops c xs = impurity_value c xs"
  using compute_impurity_fp_value [of c exact_ops xs] compute_impurity_value [of c xs]
  by (simp add: compute_impurity_exact)

lemma ieee_exact_cases_exact: "ieee_exact_cases exact_ops"
  by (simp add: ieee_exact_cases_def exact_sel round3_zero sum_list_replicate)

section \<open>The functions over double arithmetic, on valid input\<close>

lemma partition_loop_fp_eq:
  assumes "t \<in> set (columns df)" and "d \<in> set (columns df)"
    and "c = ''entropy'' \<or> c = ''gini''" and "ls = [] \<or> rows df \<noteq> []"
  shows "partition_loop_fp fl df t d c ls (el, wl)
       = Inr (el @ map (\<lambda>l. np_round fl (impurity_fp fl c (partition_target df t d l))) ls,
              wl @ map (\<lambda>l. weight_fp fl df d l) ls)"
  using assms
proof (induction ls arbitrary: el wl)
  case Nil
  show ?case by simp
next
  case (Cons l ls)
  from Cons.prems have ne: "rows df \<noteq> []" by simp
  have sel: "select_eq df d l = Inr (df\<lparr>rows := partition_rows df d l\<rparr>)"
    using Cons.prems by (simp add: select_eq_def partition_rows_def)
  have gi: "getitem (df\<lparr>rows := partition_rows df d l\<rparr>) t = Inr (partition_target df t d l)"
    using Cons.prems by (simp add: getitem_def partition_target_def)
  have ci: "compute_impurity_fp fl (partition_target df t d l) c
          = Inr (impurity_fp fl c (partition_target df t d l))"
    using Cons.prems by (simp add: compute_impurity_fp_value)
  have td: "truediv_fp fl (len (df\<lparr>rows := partition_rows df d l\<rparr>)) (len df)
          = Inr (fdiv fl (length (partition_rows df d l)) (length (rows df)))"
    using ne by (simp add: truediv_fp_def len_def)
  have ih: "partition_loop_fp fl df t d c ls (el', wl')
       = Inr (el' @ map (\<lambda>l. np_round fl (impurity_fp fl c (partition_target df t d l))) ls,
              wl' @ map (\<lambda>l. weight_fp fl df d l) ls)" for el' wl'
    using Cons.IH [of el' wl'] Cons.prems ne by simp
  show ?case
    by (simp add: sel gi ci td ih weight_fp_def)
qed

lemma map2_map_map: "map2 h (map f xs) (map g xs) = map (\<lambda>x. h (f x) (g x)) xs"
  by (induction xs) auto

lemma comp_feature_information_gain_fp_eq:
  assumes "t \<in> set (columns df)" and "d \<in> set (columns df)"
    and "c = ''entropy'' \<or> c = ''gini''"
  shows "comp_feature_information_gain_fp fl df t d c =
     ([[Str ''target feature:'', Str t],
       [Str ''descriptive_feature:'', Str d],
       [Str ''split criterion:'', Str c],
       [Str ''impurity of partitions:'',
          FloatList (map (\<lambda>l. np_round fl (impurity_fp fl c (partition_target df t d l)))
                         (levels df d))],
       [Str ''weights of partitions:'', FloatList (map (\<lambda>l. weight_fp fl df d l) (levels df d))],
       [Str ''remaining impurity:'', Float (remaining_impurity_fp fl df t d c)],
       [Str ''information gain:'',
          Float (fsub fl (impurity_fp fl c (column df t)) (remaining_impurity_fp fl df t d c))],
       [Str ''===================='']],
      Inr (fsub fl (impurity_fp fl c (column df t)) (remaining_impurity_fp fl df t d c)))"
proof -
  have lv: "levels df d = [] \<or> rows df \<noteq> []"
    by (cases "rows df") (simp_all add: levels_empty)
  have ci: "compute_impurity_fp fl (column df t) c = Inr (impurity_fp fl c (column df t))"
    using assms by (simp add: compute_impurity_fp_value)
  have pl: "partition_loop_fp fl df t d c (unique (column df d)) ([], [])
     = Inr (map (\<lambda>l. np_round fl (impurity_fp fl c (partition_target df t d l))) (levels df d),
            map (\<lambda>l. weight_fp fl df d l) (levels df d))"
    using partition_loop_fp_eq [OF assms lv, of fl "[]" "[]"] by (simp add: levels_def)
  show ?thesis
    unfolding comp_feature_information_gain_fp_def
    by (simp add: getitem_column assms ci pl map2_map_map remaining_impurity_fp_def Let_def)
qed

lemma information_gain_of_fp_eq:
  assumes "t \<in> set (columns df)" and "d \<in> set (columns df)"
    and "c = ''entropy'' \<or> c = ''gini''"
  shows "information_gain_of_fp fl df t d c
       = Inr (fsub fl (impurity_fp fl c (column df t)) (remaining_impurity_fp fl df t d c))"
  by (simp add: information_gain_of_fp_def comp_feature_information_gain_fp_eq [OF assms])

lemma weight_exact: "weight_fp exact_ops df d l = round3 (partition_weight df d l)"
  by (simp add: weight_fp_def partition_weight_def exact_sel)

lemma remaining_impurity_exact:
  "c = ''entropy'' \<or> c = ''gini'' \<Longrightarrow>
   remaining_impurity_fp exact_ops df t d c = remaining_impurity df t d c"
  by (simp add: remaining_impurity_fp_def remaining_impurity_def impurity_exact weight_exact
      exact_sel round3_impurity_value)

lemmas exact_facts =
  exact_sel impurity_exact weight_exact remaining_impurity_exact round3_impurity_value

section \<open>Ties of the third decimal\<close>

text \<open>
  The weights \<open>9/80 = 0.1125\<close> and \<open>71/80 = 0.8875\<close> lie on a tie of the third decimal.
  The doubles nearest to them lie just above and just below, so that the rounding of
  the double gives 0.113 and 0.887, where the rounding of the exact quotient gives
  0.112 and 0.888. The Gini index of 33, 5, 1 and 1 labels is 0.3025; in double
  arithmetic it comes out just above, and is rounded to 0.303, not to 0.302.
\<close>

lemma double_of_eq:
  assumes "2 powr real_of_int k \<le> x" and "x < 2 powr (real_of_int k + 1)"
  shows "double_of x =
     real_of_int (rint (x / 2 powr real_of_int (k - 52))) * 2 powr real_of_int (k - 52)"
proof -
  have pos: "0 < x"
    using assms(1) powr_gt_zero [of 2 "real_of_int k"] by linarith
  have "\<lfloor>log 2 \<bar>x\<bar>\<rfloor> = k"
    using pos assms by (simp add: floor_log_eq_powr_iff)
  with pos show ?thesis by (simp add: double_of_def Let_def)
qed

lemma double_of_0: "double_of 0 = 0"
  by (simp add: double_of_def)

lemma double_of_1: "double_of 1 = 1"
  using double_of_eq [of 0 1]
  by (simp add: powr_minus powr_numeral rint_def flip: powr_numeral)

text \<open>The roundings to a double that the examples below go through.\<close>

lemma ieee_rounding_1: "double_of (33 / 40) = 3715469692580659 / 4503599627370496"
  using double_of_eq [of "- 1" "33 / 40"]
  by (simp add: powr_minus powr_numeral rint_def divide_simps flip: powr_numeral)

lemma ieee_rounding_2: "double_of (1 / 8) = 1 / 8"
  using double_of_eq [of "- 3" "1 / 8"]
  by (simp add: powr_minus powr_numeral rint_def divide_simps flip: powr_numeral)

lemma ieee_rounding_3: "double_of (1 / 40) = 3602879701896397 / 144115188075855872"
  using double_of_eq [of "- 6" "1 / 40"]
  by (simp add: powr_minus powr_numeral rint_def divide_simps flip: powr_numeral)

lemma ieee_rounding_4: "double_of (13804715036485416696111220874281 / 20282409603651670423947251286016) = 6130524992758087 / 9007199254740992"
  using double_of_eq [of "- 1" "13804715036485416696111220874281 / 20282409603651670423947251286016"]
  by (simp add: powr_minus powr_numeral rint_def divide_simps flip: powr_numeral)

lemma ieee_rounding_5: "double_of (1 / 64) = 1 / 64"
  using double_of_eq [of "- 6" "1 / 64"]
  by (simp add: powr_minus powr_numeral rint_def divide_simps flip: powr_numeral)

lemma ieee_rounding_6: "double_of (12980742146337070512478121581609 / 20769187434139310514121985316880384) = 1441151880758559 / 2305843009213693952"
  using double_of_eq [of "- 11" "12980742146337070512478121581609 / 20769187434139310514121985316880384"]
  by (simp add: powr_minus powr_numeral rint_def divide_simps flip: powr_numeral)

lemma ieee_rounding_7: "double_of (6271262481113415 / 9007199254740992) = 6271262481113415 / 9007199254740992"
  using double_of_eq [of "- 1" "6271262481113415 / 9007199254740992"]
  by (simp add: powr_minus powr_numeral rint_def divide_simps flip: powr_numeral)

lemma ieee_rounding_8: "double_of (1606884347045792799 / 2305843009213693952) = 1569222995161907 / 2251799813685248"
  using double_of_eq [of "- 1" "1606884347045792799 / 2305843009213693952"]
  by (simp add: powr_minus powr_numeral rint_def divide_simps flip: powr_numeral)

lemma ieee_rounding_9: "double_of (1608325498926551327 / 2305843009213693952) = 6282521480181841 / 9007199254740992"
  using double_of_eq [of "- 1" "1608325498926551327 / 2305843009213693952"]
  by (simp add: powr_minus powr_numeral rint_def divide_simps flip: powr_numeral)

lemma ieee_rounding_10: "double_of (2724677774559151 / 9007199254740992) = 2724677774559151 / 9007199254740992"
  using double_of_eq [of "- 2" "2724677774559151 / 9007199254740992"]
  by (simp add: powr_minus powr_numeral rint_def divide_simps flip: powr_numeral)

lemma ieee_rounding_11: "double_of (340584721819893875 / 1125899906842624) = 2660818139217921 / 8796093022208"
  using double_of_eq [of "8" "340584721819893875 / 1125899906842624"]
  by (simp add: powr_minus powr_numeral rint_def divide_simps flip: powr_numeral)

lemma ieee_rounding_12: "double_of (303 / 1000) = 5458362748373041 / 18014398509481984"
  using double_of_eq [of "- 2" "303 / 1000"]
  by (simp add: powr_minus powr_numeral rint_def divide_simps flip: powr_numeral)

lemma ieee_rounding_13: "double_of (79 / 80) = 4447304632028365 / 4503599627370496"
  using double_of_eq [of "- 1" "79 / 80"]
  by (simp add: powr_minus powr_numeral rint_def divide_simps flip: powr_numeral)

lemma ieee_rounding_14: "double_of (1 / 80) = 3602879701896397 / 288230376151711744"
  using double_of_eq [of "- 7" "1 / 80"]
  by (simp add: powr_minus powr_numeral rint_def divide_simps flip: powr_numeral)

lemma ieee_rounding_15: "double_of (19778518490060951015774164573225 / 20282409603651670423947251286016) = 8783426648256021 / 9007199254740992"
  using double_of_eq [of "- 1" "19778518490060951015774164573225 / 20282409603651670423947251286016"]
  by (simp add: powr_minus powr_numeral rint_def divide_simps flip: powr_numeral)

lemma ieee_rounding_16: "double_of (12980742146337070512478121581609 / 83076749736557242056487941267521536) = 1441151880758559 / 9223372036854775808"
  using double_of_eq [of "- 13" "12980742146337070512478121581609 / 83076749736557242056487941267521536"]
  by (simp add: powr_minus powr_numeral rint_def divide_simps flip: powr_numeral)

lemma ieee_rounding_17: "double_of (8995670039694924063 / 9223372036854775808) = 4392417011569787 / 4503599627370496"
  using double_of_eq [of "- 1" "8995670039694924063 / 9223372036854775808"]
  by (simp add: powr_minus powr_numeral rint_def divide_simps flip: powr_numeral)

lemma ieee_rounding_18: "double_of (111182615800709 / 4503599627370496) = 111182615800709 / 4503599627370496"
  using double_of_eq [of "- 6" "111182615800709 / 4503599627370496"]
  by (simp add: powr_minus powr_numeral rint_def divide_simps flip: powr_numeral)

lemma ieee_rounding_19: "double_of (13897826975088625 / 562949953421312) = 868614185943039 / 35184372088832"
  using double_of_eq [of "4" "13897826975088625 / 562949953421312"]
  by (simp add: powr_minus powr_numeral rint_def divide_simps flip: powr_numeral)

lemma ieee_rounding_20: "double_of (1) = 1"
  using double_of_eq [of "0" "1"]
  by (simp add: powr_minus powr_numeral rint_def divide_simps flip: powr_numeral)

lemma ieee_rounding_21: "double_of (70 / 71) = 2220084323351653 / 2251799813685248"
  using double_of_eq [of "- 1" "70 / 71"]
  by (simp add: powr_minus powr_numeral rint_def divide_simps flip: powr_numeral)

lemma ieee_rounding_22: "double_of (1 / 71) = 8119165525400331 / 576460752303423488"
  using double_of_eq [of "- 7" "1 / 71"]
  by (simp add: powr_minus powr_numeral rint_def divide_simps flip: powr_numeral)

lemma ieee_rounding_23: "double_of (4928774402791766953995497832409 / 5070602400912917605986812821504) = 1094407765032505 / 1125899906842624"
  using double_of_eq [of "- 1" "4928774402791766953995497832409 / 5070602400912917605986812821504"]
  by (simp add: powr_minus powr_numeral rint_def divide_simps flip: powr_numeral)

lemma ieee_rounding_24: "double_of (65920848828849232932737814909561 / 332306998946228968225951765070086144) = 3659342208631135 / 18446744073709551616"
  using double_of_eq [of "- 13" "65920848828849232932737814909561 / 332306998946228968225951765070086144"]
  by (simp add: powr_minus powr_numeral rint_def divide_simps flip: powr_numeral)

lemma ieee_rounding_25: "double_of (17934436164501193055 / 18446744073709551616) = 1094631113555981 / 1125899906842624"
  using double_of_eq [of "- 1" "17934436164501193055 / 18446744073709551616"]
  by (simp add: powr_minus powr_numeral rint_def divide_simps flip: powr_numeral)

lemma ieee_rounding_26: "double_of (31268793286643 / 1125899906842624) = 31268793286643 / 1125899906842624"
  using double_of_eq [of "- 6" "31268793286643 / 1125899906842624"]
  by (simp add: powr_minus powr_numeral rint_def divide_simps flip: powr_numeral)

lemma ieee_rounding_27: "double_of (3908599160830375 / 140737488355328) = 3908599160830375 / 140737488355328"
  using double_of_eq [of "4" "3908599160830375 / 140737488355328"]
  by (simp add: powr_minus powr_numeral rint_def divide_simps flip: powr_numeral)

lemma ieee_rounding_28: "double_of (7 / 250) = 8070450532247929 / 288230376151711744"
  using double_of_eq [of "- 6" "7 / 250"]
  by (simp add: powr_minus powr_numeral rint_def divide_simps flip: powr_numeral)

lemma ieee_rounding_29: "double_of (1008806316530991125 / 36028797018963968) = 28"
  using double_of_eq [of "4" "1008806316530991125 / 36028797018963968"]
  by (simp add: powr_minus powr_numeral rint_def divide_simps flip: powr_numeral)

lemma ieee_rounding_30: "double_of (9 / 80) = 8106479329266893 / 72057594037927936"
  using double_of_eq [of "- 4" "9 / 80"]
  by (simp add: powr_minus powr_numeral rint_def divide_simps flip: powr_numeral)

lemma ieee_rounding_31: "double_of (113 / 1000) = 8142508126285857 / 72057594037927936"
  using double_of_eq [of "- 4" "113 / 1000"]
  by (simp add: powr_minus powr_numeral rint_def divide_simps flip: powr_numeral)

lemma ieee_rounding_32: "double_of (71 / 80) = 3996944669291315 / 4503599627370496"
  using double_of_eq [of "- 1" "71 / 80"]
  by (simp add: powr_minus powr_numeral rint_def divide_simps flip: powr_numeral)

lemma ieee_rounding_33: "double_of (887 / 1000) = 1997346434738815 / 2251799813685248"
  using double_of_eq [of "- 1" "887 / 1000"]
  by (simp add: powr_minus powr_numeral rint_def divide_simps flip: powr_numeral)

lemma ieee_rounding_34: "double_of (16119485597321372902017939664135 / 649037107316853453566312041152512) = 7158489622103913 / 288230376151711744"
  using double_of_eq [of "- 6" "16119485597321372902017939664135 / 649037107316853453566312041152512"]
  by (simp add: powr_minus powr_numeral rint_def divide_simps flip: powr_numeral)

lemma ieee_rounding_35: "double_of (47269781688881 / 288230376151711744) = 47269781688881 / 288230376151711744"
  using double_of_eq [of "- 13" "47269781688881 / 288230376151711744"]
  by (simp add: powr_minus powr_numeral rint_def divide_simps flip: powr_numeral)

lemma ieee_rounding_36: "double_of (247 / 250) = 2224778215921025 / 2251799813685248"
  using double_of_eq [of "- 1" "247 / 250"]
  by (simp add: powr_minus powr_numeral rint_def divide_simps flip: powr_numeral)

lemma ieee_rounding_37: "double_of (13 / 1000) = 7493989779944505 / 576460752303423488"
  using double_of_eq [of "- 7" "13 / 1000"]
  by (simp add: powr_minus powr_numeral rint_def divide_simps flip: powr_numeral)

lemma ieee_rounding_38: "double_of (682295343546630125 / 2251799813685248) = 303"
  using double_of_eq [of "8" "682295343546630125 / 2251799813685248"]
  by (simp add: powr_minus powr_numeral rint_def divide_simps flip: powr_numeral)

lemma ieee_rounding_39: "double_of (6209 / 250000) = 7158489622103913 / 288230376151711744"
  using double_of_eq [of "- 6" "6209 / 250000"]
  by (simp add: powr_minus powr_numeral rint_def divide_simps flip: powr_numeral)

lemmas ieee_roundings =
  ieee_rounding_1 ieee_rounding_2 ieee_rounding_3 ieee_rounding_4 ieee_rounding_5
  ieee_rounding_6 ieee_rounding_7 ieee_rounding_8 ieee_rounding_9 ieee_rounding_10
  ieee_rounding_11 ieee_rounding_12 ieee_rounding_13 ieee_rounding_14 ieee_rounding_15
  ieee_rounding_16 ieee_rounding_17 ieee_rounding_18 ieee_rounding_19 ieee_rounding_20
  ieee_rounding_21 ieee_rounding_22 ieee_rounding_23 ieee_rounding_24 ieee_rounding_25
  ieee_rounding_26 ieee_rounding_27 ieee_rounding_28 ieee_rounding_29 ieee_rounding_30
  ieee_rounding_31 ieee_rounding_32 ieee_rounding_33 ieee_rounding_34 ieee_rounding_35
  ieee_rounding_36 ieee_rounding_37 ieee_rounding_38 ieee_rounding_39


lemma ieee_sel:
  "fdiv ieee_ops = (\<lambda>a b. double_of (real a / real b))"
  "fmul ieee_ops = (\<lambda>x y. double_of (x * y))"
  "fsub ieee_ops = (\<lambda>x y. if y = 0 then x else double_of (x - y))"
  "flog2 ieee_ops = (\<lambda>x. double_of (log 2 x))"
  "fsquare ieee_ops = (\<lambda>x. double_of (x\<^sup>2))"
  "fsum ieee_ops = foldl fadd_ieee 0"
  "np_round ieee_ops = (\<lambda>x. double_of (real_of_int (rint (double_of (x * 1000))) / 1000))"
  "py_round ieee_ops = (\<lambda>x. double_of (round3 x))"
  by (simp_all add: ieee_ops_def)

lemma foldl_fadd_zeros: "foldl fadd_ieee 0 (replicate n 0) = 0"
  by (induction n) (simp_all add: fadd_ieee_def)

lemma ieee_exact_cases_ieee: "ieee_exact_cases ieee_ops"
  by (simp add: ieee_exact_cases_def ieee_sel double_of_0 double_of_1 fadd_ieee_def
      foldl_fadd_zeros rint_def)

lemma weight_ties:
  "py_round ieee_ops (fdiv ieee_ops 9 80) = double_of (113 / 1000)"
  "py_round ieee_ops (fdiv ieee_ops 71 80) = double_of (887 / 1000)"
  "py_round exact_ops (fdiv exact_ops 9 80) = 112 / 1000"
  "py_round exact_ops (fdiv exact_ops 71 80) = 888 / 1000"
  by (simp_all add: ieee_sel exact_sel ieee_roundings round3_def rint_def)

subsection \<open>The two data sets\<close>

lemma remdups_replicate_pos: "0 < k \<Longrightarrow> remdups (replicate k l) = [l]"
  by (induction k) auto

lemma remdups_replicate_append:
  "remdups (replicate n x @ ys) = (if n = 0 \<or> x \<in> set ys then remdups ys else x # remdups ys)"
  by (induction n) auto

lemma tie_columns: "''t'' \<in> set (columns tie_df)" "''d'' \<in> set (columns tie_df)"
  by (simp_all add: tie_df_def frame_dt_def)

lemma tie_length: "length (rows tie_df) = 80"
  by (simp add: tie_df_def frame_dt_def)

lemma tie_column_t: "column tie_df ''t'' = replicate 9 ''a'' @ replicate 70 ''a'' @ [''b'']"
  by (simp add: tie_df_def frame_dt_def column_def)

lemma tie_levels: "levels tie_df ''d'' = [''x'', ''y'']"
  by (simp add: levels_def unique_def tie_df_def frame_dt_def column_def
      remdups_replicate_append remdups_replicate_pos)

lemma tie_partitions:
  "partition_target tie_df ''t'' ''d'' ''x'' = replicate 9 ''a''"
  "partition_target tie_df ''t'' ''d'' ''y'' = replicate 70 ''a'' @ [''b'']"
  "length (partition_rows tie_df ''d'' ''x'') = 9"
  "length (partition_rows tie_df ''d'' ''y'') = 71"
  by (simp_all add: partition_target_def partition_rows_def tie_df_def frame_dt_def)

lemma tie_labels:
  "labels_by_count (replicate 9 ''a'') = [''a'']"
  "labels_by_count (replicate 70 ''a'' @ [''b'']) = [''a'', ''b'']"
  "labels_by_count (replicate 9 ''a'' @ replicate 70 ''a'' @ [''b'']) = [''a'', ''b'']"
  by (simp_all add: labels_by_count_def unique_def remdups_replicate_append
      remdups_replicate_pos count_list_replicate)

lemma tie_rows: "rows tie_df \<noteq> []"
  by (simp add: tie_df_def frame_dt_def)

lemma tie_impurities_exact:
  "impurity_fp exact_ops ''gini'' (replicate 9 ''a'') = 0"
  "impurity_fp exact_ops ''gini'' (replicate 70 ''a'' @ [''b'']) = 28 / 1000"
  "impurity_fp exact_ops ''gini'' (replicate 9 ''a'' @ replicate 70 ''a'' @ [''b''])
     = 25 / 1000"
  by (simp_all add: impurity_fp_def unrounded_impurity_fp_def tie_labels prob_fp_def
      count_list_replicate exact_sel power2_eq_square round3_def rint_def)

lemmas tie_facts =
  tie_levels tie_partitions tie_column_t tie_length tie_impurities_exact exact_sel

lemma tie_list_labels:
  "labels_by_count (replicate 33 ''a'' @ replicate 5 ''b'' @ [''c'', ''d''])
     = [''a'', ''b'', ''c'', ''d'']"
  by (simp add: labels_by_count_def unique_def remdups_replicate_append remdups_replicate_pos
      count_list_replicate)

lemma tie_list_gini:
  "impurity_fp ieee_ops ''gini'' (replicate 33 ''a'' @ replicate 5 ''b'' @ [''c'', ''d''])
     = double_of (303 / 1000)"
  "impurity_fp exact_ops ''gini'' (replicate 33 ''a'' @ replicate 5 ''b'' @ [''c'', ''d''])
     = 302 / 1000"
  by (simp_all add: impurity_fp_def unrounded_impurity_fp_def tie_list_labels prob_fp_def
      count_list_replicate ieee_sel exact_sel fadd_ieee_def ieee_roundings power2_eq_square
      round3_def rint_def)

lemma tie_impurities_ieee:
  "impurity_fp ieee_ops ''gini'' (replicate 9 ''a'') = 0"
  "impurity_fp ieee_ops ''gini'' (replicate 70 ''a'' @ [''b'']) = double_of (28 / 1000)"
  "impurity_fp ieee_ops ''gini'' (replicate 9 ''a'' @ replicate 70 ''a'' @ [''b''])
     = double_of (25 / 1000)"
  by (simp_all add: impurity_fp_def unrounded_impurity_fp_def tie_labels prob_fp_def
      count_list_replicate ieee_sel fadd_ieee_def double_of_0 double_of_1 ieee_roundings
      power2_eq_square round3_def rint_def)

lemmas tie_facts_ieee =
  tie_levels tie_partitions tie_column_t tie_length tie_impurities_ieee
  ieee_sel fadd_ieee_def double_of_0 double_of_1 ieee_roundings

lemma tie_target:
  "''t'' \<in> set (columns tie_target_df)"
  "column tie_target_df ''t'' = replicate 33 ''a'' @ replicate 5 ''b'' @ [''c'', ''d'']"
  "levels tie_target_df ''t'' = [''a'', ''b'', ''c'', ''d'']"
  "length (rows tie_target_df) = 40"
  "length (partition_rows tie_target_df ''t'' ''a'') = 33"
  "length (partition_rows tie_target_df ''t'' ''b'') = 5"
  "length (partition_rows tie_target_df ''t'' ''c'') = 1"
  "length (partition_rows tie_target_df ''t'' ''d'') = 1"
  by (simp_all add: levels_def unique_def partition_rows_def tie_target_df_def frame_dt_def
      column_def remdups_replicate_append remdups_replicate_pos)

section \<open>compute\_impurity: the value\<close>

text \<open>
  C1. For every non-empty sequence of labels, the distribution has one entry per
  distinct label, in the order of \<open>value_counts\<close>, holding the count of the label
  divided by the length of the sequence. With \<open>'entropy'\<close> \<open>compute_impurity\<close> returns
  \<open>- \<Sum> log2 p\<^sub>i * p\<^sub>i\<close> over this distribution, with \<open>'gini'\<close> it returns \<open>1 - \<Sum> p\<^sub>i\<^sup>2\<close>,
  each computed in double arithmetic and rounded to three decimals at the end.
\<close>

theorem compute_impurity_spec:
  assumes "xs \<noteq> []"
  shows "distinct (labels_by_count xs) \<and> set (labels_by_count xs) = set xs \<and>
     compute_impurity_fp fl xs ''entropy'' =
       Inr (np_round fl (fmul fl (- 1) (fsum fl
              (map (\<lambda>l. fmul fl (flog2 fl (fdiv fl (count_list xs l) (length xs)))
                                   (fdiv fl (count_list xs l) (length xs)))
                   (labels_by_count xs))))) \<and>
     compute_impurity_fp fl xs ''gini'' =
       Inr (np_round fl (fsub fl 1 (fsum fl
              (map (\<lambda>l. fsquare fl (fdiv fl (count_list xs l) (length xs)))
                   (labels_by_count xs)))))"
  by (simp add: labels_by_count_distinct labels_by_count_set compute_impurity_fp_value
      impurity_fp_def unrounded_impurity_fp_def prob_fp_def)

lemma fruits_labels:
  "labels_by_count [''apple'', ''apple'', ''apple'', ''orange'', ''orange'', ''banana'', ''banana'']
   = [''apple'', ''orange'', ''banana'']"
  by (simp add: labels_by_count_def unique_def)

theorem compute_impurity_spec_witness:
  "([''apple'', ''apple'', ''apple'', ''orange'', ''orange'', ''banana'', ''banana''] \<noteq> [] \<and>
   labels_by_count [''apple'', ''apple'', ''apple'', ''orange'', ''orange'', ''banana'', ''banana'']
     = [''apple'', ''orange'', ''banana''] \<and>
   compute_impurity_fp exact_ops
     [''apple'', ''apple'', ''apple'', ''orange'', ''orange'', ''banana'', ''banana'']
     ''entropy'' = Inr (1557 / 1000) \<and>
   compute_impurity_fp exact_ops
     [''apple'', ''apple'', ''apple'', ''orange'', ''orange'', ''banana'', ''banana'']
     ''gini'' = Inr (653 / 1000) \<and>
   round3 (- 1 * (log 2 (3 / 7) * (3 / 7) + log 2 (2 / 7) * (2 / 7) + log 2 (2 / 7) * (2 / 7)))
     = 1557 / 1000 \<and>
   round3 (1 - ((3 / 7)\<^sup>2 + (2 / 7)\<^sup>2 + (2 / 7)\<^sup>2)) = 653 / 1000) \<and>
   (replicate 33 ''a'' @ replicate 5 ''b'' @ [''c'', ''d''] \<noteq> [] \<and>
   compute_impurity_fp ieee_ops (replicate 33 ''a'' @ replicate 5 ''b'' @ [''c'', ''d''])
     ''gini'' = Inr (double_of (303 / 1000)) \<and>
   compute_impurity_fp exact_ops (replicate 33 ''a'' @ replicate 5 ''b'' @ [''c'', ''d''])
     ''gini'' = Inr (302 / 1000))"
proof -
  have fruits: "[''apple'', ''apple'', ''apple'', ''orange'', ''orange'', ''banana'', ''banana''] \<noteq> [] \<and>
   labels_by_count [''apple'', ''apple'', ''apple'', ''orange'', ''orange'', ''banana'', ''banana'']
     = [''apple'', ''orange'', ''banana''] \<and>
   compute_impurity_fp exact_ops
     [''apple'', ''apple'', ''apple'', ''orange'', ''orange'', ''banana'', ''banana'']
     ''entropy'' = Inr (1557 / 1000) \<and>
   compute_impurity_fp exact_ops
     [''apple'', ''apple'', ''apple'', ''orange'', ''orange'', ''banana'', ''banana'']
     ''gini'' = Inr (653 / 1000) \<and>
   round3 (- 1 * (log 2 (3 / 7) * (3 / 7) + log 2 (2 / 7) * (2 / 7) + log 2 (2 / 7) * (2 / 7)))
     = 1557 / 1000 \<and>
   round3 (1 - ((3 / 7)\<^sup>2 + (2 / 7)\<^sup>2 + (2 / 7)\<^sup>2)) = 653 / 1000"
  proof -
    let ?xs = "[''apple'', ''apple'', ''apple'', ''orange'', ''orange'', ''banana'', ''banana'']"
    have v: "compute_impurity_fp exact_ops ?xs ''entropy'' = Inr (1557 / 1000)"
      "compute_impurity_fp exact_ops ?xs ''gini'' = Inr (653 / 1000)"
      by (simp_all add: compute_impurity_exact compute_impurity_value fruits_impurity)
    have s: "compute_impurity_fp exact_ops ?xs ''entropy'' =
         Inr (round3 (- 1 * (log 2 (3 / 7) * (3 / 7) + log 2 (2 / 7) * (2 / 7)
                             + log 2 (2 / 7) * (2 / 7))))"
      "compute_impurity_fp exact_ops ?xs ''gini'' =
         Inr (round3 (1 - ((3 / 7)\<^sup>2 + (2 / 7)\<^sup>2 + (2 / 7)\<^sup>2)))"
      using compute_impurity_spec [of ?xs exact_ops]
      unfolding fruits_labels exact_sel list.map
      by (simp_all add: add.assoc)
    have e: "round3 (- 1 * (log 2 (3 / 7) * (3 / 7) + log 2 (2 / 7) * (2 / 7)
                            + log 2 (2 / 7) * (2 / 7))) = 1557 / 1000"
      by (rule sym) (use trans [OF sym [OF v(1)] s(1)] in \<open>simp only: sum.inject\<close>)
    have g: "round3 (1 - ((3 / 7)\<^sup>2 + (2 / 7)\<^sup>2 + (2 / 7)\<^sup>2)) = 653 / 1000"
      by (rule sym) (use trans [OF sym [OF v(2)] s(2)] in \<open>simp only: sum.inject\<close>)
    have n: "?xs \<noteq> []" by simp
    show ?thesis
      using n fruits_labels v e g by (intro conjI)
  qed
  have tie: "replicate 33 ''a'' @ replicate 5 ''b'' @ [''c'', ''d''] \<noteq> [] \<and>
   compute_impurity_fp ieee_ops (replicate 33 ''a'' @ replicate 5 ''b'' @ [''c'', ''d''])
     ''gini'' = Inr (double_of (303 / 1000)) \<and>
   compute_impurity_fp exact_ops (replicate 33 ''a'' @ replicate 5 ''b'' @ [''c'', ''d''])
     ''gini'' = Inr (302 / 1000)"
    using compute_impurity_spec [of "replicate 33 ''a'' @ replicate 5 ''b'' @ [''c'', ''d'']" ieee_ops]
      compute_impurity_spec [of "replicate 33 ''a'' @ replicate 5 ''b'' @ [''c'', ''d'']" exact_ops]
    unfolding tie_list_labels list.map
    by (simp add: count_list_replicate ieee_sel exact_sel fadd_ieee_def double_of_0 ieee_roundings
        power2_eq_square round3_def rint_def)
  show ?thesis
    by (rule conjI [OF fruits tie])
qed

section \<open>comp\_feature\_information\_gain: the value\<close>

text \<open>
  C9. On a non-empty data set with both attributes among its columns and a supported
  criterion, the returned gain is the impurity of the target column, rounded once
  (by \<open>compute_impurity\<close>), minus the sum over the levels of the descriptive attribute
  of the products of the partition impurity, rounded (by \<open>compute_impurity\<close> and again
  in the loop), and the partition weight \<open>|partition| / |dataset|\<close>, rounded; the
  difference is returned as it is, not rounded.
\<close>

theorem information_gain_rounding:
  assumes "rows df \<noteq> []" and "t \<in> set (columns df)" and "d \<in> set (columns df)"
    and "c = ''entropy'' \<or> c = ''gini''"
  shows "information_gain_of_fp fl df t d c =
     Inr (fsub fl
            (np_round fl (unrounded_impurity_fp fl c (column df t)))
            (fsum fl
               (map (\<lambda>l. fmul fl
                            (np_round fl (np_round fl
                               (unrounded_impurity_fp fl c (partition_target df t d l))))
                            (py_round fl
                               (fdiv fl (length (partition_rows df d l)) (length (rows df)))))
                    (levels df d))))"
  using assms(2-4)
  by (simp add: information_gain_of_fp_eq remaining_impurity_fp_def impurity_fp_def
      weight_fp_def)

theorem information_gain_rounding_witness:
  "(rows vegetation_df \<noteq> [] \<and> ''vegetation'' \<in> set (columns vegetation_df) \<and>
   ''stream'' \<in> set (columns vegetation_df) \<and>
   information_gain_of_fp exact_ops vegetation_df ''vegetation'' ''stream'' ''gini''
     = Inr (105649 / 1000000) \<and>
   round3 (105649 / 1000000) = 106 / 1000) \<and>
   (rows tie_df \<noteq> [] \<and> ''t'' \<in> set (columns tie_df) \<and> ''d'' \<in> set (columns tie_df) \<and>
   information_gain_of_fp ieee_ops tie_df ''t'' ''d'' ''gini''
     = Inr (double_of (25 / 1000) - double_of (24836 / 1000000)) \<and>
   information_gain_of_fp exact_ops tie_df ''t'' ''d'' ''gini'' = Inr (136 / 1000000))"
proof -
  have veg: "rows vegetation_df \<noteq> [] \<and> ''vegetation'' \<in> set (columns vegetation_df) \<and>
   ''stream'' \<in> set (columns vegetation_df) \<and>
   information_gain_of_fp exact_ops vegetation_df ''vegetation'' ''stream'' ''gini''
     = Inr (105649 / 1000000) \<and>
   round3 (105649 / 1000000) = 106 / 1000"
  proof -
    have ne: "rows vegetation_df \<noteq> []"
      by (simp add: vegetation_df_def)
    have "information_gain_of_fp exact_ops vegetation_df ''vegetation'' ''stream'' ''gini'' =
       Inr (impurity_fp exact_ops ''gini'' (column vegetation_df ''vegetation'')
            - remaining_impurity_fp exact_ops vegetation_df ''vegetation'' ''stream'' ''gini'')"
      using information_gain_rounding [OF ne veg_columns(1) veg_columns(2), of "''gini''" exact_ops]
      by (simp add: remaining_impurity_fp_def impurity_fp_def weight_fp_def exact_sel)
    then show ?thesis
      using ne by (simp add: exact_facts veg_facts veg_remaining_gini round3_def rint_def)
  qed
  have tie: "rows tie_df \<noteq> [] \<and> ''t'' \<in> set (columns tie_df) \<and> ''d'' \<in> set (columns tie_df) \<and>
   information_gain_of_fp ieee_ops tie_df ''t'' ''d'' ''gini''
     = Inr (double_of (25 / 1000) - double_of (24836 / 1000000)) \<and>
   information_gain_of_fp exact_ops tie_df ''t'' ''d'' ''gini'' = Inr (136 / 1000000)"
  proof -
    have 1: "information_gain_of_fp ieee_ops tie_df ''t'' ''d'' ''gini''
           = Inr (double_of (25 / 1000) - double_of (24836 / 1000000))"
      using information_gain_rounding [OF tie_rows tie_columns, of "''gini''" ieee_ops]
      unfolding tie_levels list.map impurity_fp_def [symmetric]
      by (simp add: tie_facts_ieee round3_def rint_def)
    have 2: "information_gain_of_fp exact_ops tie_df ''t'' ''d'' ''gini'' = Inr (136 / 1000000)"
      using information_gain_rounding [OF tie_rows tie_columns, of "''gini''" exact_ops]
      unfolding tie_levels list.map impurity_fp_def [symmetric]
      by (simp add: tie_facts round3_def rint_def)
    show ?thesis
      using tie_rows tie_columns 1 2 by (intro conjI)
  qed
  show ?thesis
    by (rule conjI [OF veg tie])
qed

text \<open>
  C2, as the code has it. On a non-empty data set, with target and descriptive
  attribute two different columns and a supported criterion: the levels are the
  distinct values of the descriptive column; the target impurity and the impurity
  of each partition are what \<open>compute_impurity\<close> returns; the remaining impurity is
  the sum over the levels of the partition impurity (rounded once more) times the
  weight \<open>|partition| / |dataset|\<close> rounded to three decimals; and the function
  returns the target impurity minus the remaining impurity.
\<close>

theorem information_gain_weighted_sum:
  assumes "rows df \<noteq> []" and "t \<in> set (columns df)" and "d \<in> set (columns df)"
    and "d \<noteq> t" and "c = ''entropy'' \<or> c = ''gini''"
  shows "distinct (levels df d) \<and> set (levels df d) = set (column df d) \<and>
     compute_impurity_fp fl (column df t) c = Inr (impurity_fp fl c (column df t)) \<and>
     list_all (\<lambda>l. compute_impurity_fp fl (partition_target df t d l) c
                      = Inr (impurity_fp fl c (partition_target df t d l))) (levels df d) \<and>
     information_gain_of_fp fl df t d c =
       Inr (fsub fl (impurity_fp fl c (column df t))
              (fsum fl
                 (map (\<lambda>l. fmul fl
                              (np_round fl (impurity_fp fl c (partition_target df t d l)))
                              (py_round fl
                                 (fdiv fl (length (partition_rows df d l))
                                          (length (rows df)))))
                      (levels df d))))"
  using assms(2,3,5)
  by (simp add: distinct_levels set_levels compute_impurity_fp_value list_all_iff
      information_gain_of_fp_eq remaining_impurity_fp_def weight_fp_def)

theorem information_gain_weighted_sum_witness:
  "(rows vegetation_df \<noteq> [] \<and> ''vegetation'' \<in> set (columns vegetation_df) \<and>
   ''stream'' \<in> set (columns vegetation_df) \<and> ''stream'' \<noteq> ''vegetation'' \<and>
   levels vegetation_df ''stream'' = [B False, B True] \<and>
   compute_impurity_fp exact_ops (column vegetation_df ''vegetation'') ''gini''
     = Inr (653 / 1000) \<and>
   compute_impurity_fp exact_ops
       (partition_target vegetation_df ''vegetation'' ''stream'' (B False)) ''gini''
     = Inr (444 / 1000) \<and>
   compute_impurity_fp exact_ops
       (partition_target vegetation_df ''vegetation'' ''stream'' (B True)) ''gini''
     = Inr (625 / 1000) \<and>
   information_gain_of_fp exact_ops vegetation_df ''vegetation'' ''stream'' ''gini''
     = Inr (653 / 1000 - (444 / 1000 * (429 / 1000) + 625 / 1000 * (571 / 1000)))) \<and>
   (information_gain_of_fp ieee_ops tie_df ''t'' ''d'' ''gini''
     = Inr (double_of (25 / 1000) - double_of (double_of (28 / 1000) * double_of (887 / 1000))))"
proof -
  have veg: "rows vegetation_df \<noteq> [] \<and> ''vegetation'' \<in> set (columns vegetation_df) \<and>
   ''stream'' \<in> set (columns vegetation_df) \<and> ''stream'' \<noteq> ''vegetation'' \<and>
   levels vegetation_df ''stream'' = [B False, B True] \<and>
   compute_impurity_fp exact_ops (column vegetation_df ''vegetation'') ''gini''
     = Inr (653 / 1000) \<and>
   compute_impurity_fp exact_ops
       (partition_target vegetation_df ''vegetation'' ''stream'' (B False)) ''gini''
     = Inr (444 / 1000) \<and>
   compute_impurity_fp exact_ops
       (partition_target vegetation_df ''vegetation'' ''stream'' (B True)) ''gini''
     = Inr (625 / 1000) \<and>
   information_gain_of_fp exact_ops vegetation_df ''vegetation'' ''stream'' ''gini''
     = Inr (653 / 1000 - (444 / 1000 * (429 / 1000) + 625 / 1000 * (571 / 1000)))"
  proof -
    have ne: "rows vegetation_df \<noteq> []"
      by (simp add: vegetation_df_def)
    have len: "length (rows vegetation_df) = 7"
      by (simp add: vegetation_df_def)
    have w: "length (partition_rows vegetation_df ''stream'' (B False)) = 3"
      "length (partition_rows vegetation_df ''stream'' (B True)) = 4"
      by (simp_all add: partition_rows_def vegetation_df_def veg_row_def)
    show ?thesis
      using ne information_gain_weighted_sum
        [OF ne veg_columns(1) veg_columns(2), of "''gini''" exact_ops]
      unfolding veg_levels list.map
      by (simp add: len w exact_facts veg_facts round3_def rint_def)
  qed
  have tie: "information_gain_of_fp ieee_ops tie_df ''t'' ''d'' ''gini''
     = Inr (double_of (25 / 1000) - double_of (double_of (28 / 1000) * double_of (887 / 1000)))"
    using information_gain_weighted_sum [OF tie_rows tie_columns, of "''gini''" ieee_ops]
    unfolding tie_levels list.map
    by (simp add: tie_facts_ieee round3_def rint_def)
  show ?thesis
    by (rule conjI [OF veg tie])
qed

section \<open>comp\_feature\_information\_gain: what is returned and what is printed\<close>

text \<open>
  C7, as the code has it. For every data set with both attributes among its columns
  and a supported criterion, the function returns the gain alone, a number. The
  intermediate values are printed, not returned: after the three lines naming the
  arguments, the list of the rounded partition impurities and the list of the
  rounded partition weights (both in order of first appearance of the levels), the
  remaining impurity and the gain. The target impurity is neither returned nor
  printed.
\<close>

theorem information_gain_printed_report:
  assumes "t \<in> set (columns df)" and "d \<in> set (columns df)"
    and "c = ''entropy'' \<or> c = ''gini''"
  shows "comp_feature_information_gain_fp fl df t d c =
     ([[Str ''target feature:'', Str t],
       [Str ''descriptive_feature:'', Str d],
       [Str ''split criterion:'', Str c],
       [Str ''impurity of partitions:'',
          FloatList (map (\<lambda>l. np_round fl (impurity_fp fl c (partition_target df t d l)))
                         (levels df d))],
       [Str ''weights of partitions:'',
          FloatList (map (\<lambda>l. py_round fl
                                 (fdiv fl (length (partition_rows df d l)) (length (rows df))))
                         (levels df d))],
       [Str ''remaining impurity:'', Float (remaining_impurity_fp fl df t d c)],
       [Str ''information gain:'',
          Float (fsub fl (impurity_fp fl c (column df t)) (remaining_impurity_fp fl df t d c))],
       [Str ''===================='']],
      Inr (fsub fl (impurity_fp fl c (column df t)) (remaining_impurity_fp fl df t d c))) \<and>
    compute_impurity_fp fl (column df t) c = Inr (impurity_fp fl c (column df t)) \<and>
    list_all (\<lambda>l. compute_impurity_fp fl (partition_target df t d l) c
                     = Inr (impurity_fp fl c (partition_target df t d l))) (levels df d)"
  using assms comp_feature_information_gain_fp_eq [OF assms, of fl]
  by (simp add: weight_fp_def compute_impurity_fp_value list_all_iff)

theorem information_gain_printed_report_witness:
  "(''vegetation'' \<in> set (columns vegetation_df) \<and> ''stream'' \<in> set (columns vegetation_df) \<and>
   comp_feature_information_gain_fp exact_ops vegetation_df ''vegetation'' ''stream'' ''gini'' =
     ([[Str ''target feature:'', Str ''vegetation''],
       [Str ''descriptive_feature:'', Str ''stream''],
       [Str ''split criterion:'', Str ''gini''],
       [Str ''impurity of partitions:'', FloatList [444 / 1000, 625 / 1000]],
       [Str ''weights of partitions:'', FloatList [429 / 1000, 571 / 1000]],
       [Str ''remaining impurity:'', Float (547351 / 1000000)],
       [Str ''information gain:'', Float (105649 / 1000000)],
       [Str ''===================='']],
      Inr (105649 / 1000000))) \<and>
   (comp_feature_information_gain_fp ieee_ops tie_df ''t'' ''d'' ''gini'' =
     ([[Str ''target feature:'', Str ''t''],
       [Str ''descriptive_feature:'', Str ''d''],
       [Str ''split criterion:'', Str ''gini''],
       [Str ''impurity of partitions:'', FloatList [0, double_of (28 / 1000)]],
       [Str ''weights of partitions:'',
          FloatList [double_of (113 / 1000), double_of (887 / 1000)]],
       [Str ''remaining impurity:'', Float (double_of (24836 / 1000000))],
       [Str ''information gain:'',
          Float (double_of (25 / 1000) - double_of (24836 / 1000000))],
       [Str ''===================='']],
      Inr (double_of (25 / 1000) - double_of (24836 / 1000000))))"
proof -
  have veg: "''vegetation'' \<in> set (columns vegetation_df) \<and> ''stream'' \<in> set (columns vegetation_df) \<and>
   comp_feature_information_gain_fp exact_ops vegetation_df ''vegetation'' ''stream'' ''gini'' =
     ([[Str ''target feature:'', Str ''vegetation''],
       [Str ''descriptive_feature:'', Str ''stream''],
       [Str ''split criterion:'', Str ''gini''],
       [Str ''impurity of partitions:'', FloatList [444 / 1000, 625 / 1000]],
       [Str ''weights of partitions:'', FloatList [429 / 1000, 571 / 1000]],
       [Str ''remaining impurity:'', Float (547351 / 1000000)],
       [Str ''information gain:'', Float (105649 / 1000000)],
       [Str ''===================='']],
      Inr (105649 / 1000000))"
  proof -
    have len: "length (rows vegetation_df) = 7"
      by (simp add: vegetation_df_def)
    have w: "length (partition_rows vegetation_df ''stream'' (B False)) = 3"
      "length (partition_rows vegetation_df ''stream'' (B True)) = 4"
      by (simp_all add: partition_rows_def vegetation_df_def veg_row_def)
    show ?thesis
      using information_gain_printed_report
        [OF veg_columns(1) veg_columns(2), of "''gini''" exact_ops]
      unfolding veg_levels list.map
      by (simp add: len w exact_facts veg_facts veg_remaining_gini round3_def rint_def)
  qed
  have tie: "comp_feature_information_gain_fp ieee_ops tie_df ''t'' ''d'' ''gini'' =
     ([[Str ''target feature:'', Str ''t''],
       [Str ''descriptive_feature:'', Str ''d''],
       [Str ''split criterion:'', Str ''gini''],
       [Str ''impurity of partitions:'', FloatList [0, double_of (28 / 1000)]],
       [Str ''weights of partitions:'',
          FloatList [double_of (113 / 1000), double_of (887 / 1000)]],
       [Str ''remaining impurity:'', Float (double_of (24836 / 1000000))],
       [Str ''information gain:'',
          Float (double_of (25 / 1000) - double_of (24836 / 1000000))],
       [Str ''===================='']],
      Inr (double_of (25 / 1000) - double_of (24836 / 1000000)))"
    using information_gain_printed_report [OF tie_columns, of "''gini''" ieee_ops]
    unfolding remaining_impurity_fp_def weight_fp_def tie_levels list.map
    by (simp add: tie_facts_ieee round3_def rint_def)
  show ?thesis
    by (rule conjI [OF veg tie])
qed

section \<open>comp\_feature\_information\_gain: the target as descriptive attribute\<close>

lemma labels_by_count_replicate: "0 < k \<Longrightarrow> labels_by_count (replicate k l) = [l]"
  by (simp add: labels_by_count_def unique_def remdups_replicate_pos)

lemma impurity_fp_replicate:
  assumes "ieee_exact_cases fl" and "0 < k" and "c = ''entropy'' \<or> c = ''gini''"
  shows "impurity_fp fl c (replicate k l) = 0"
proof -
  have p: "prob_fp fl (replicate k l) l = 1"
    using assms(1,2) by (simp add: prob_fp_def count_list_replicate ieee_exact_cases_def)
  have e: "fmul fl (- 1) (fsum fl [fmul fl (flog2 fl 1) 1]) = 0"
    using assms(1) by (simp add: ieee_exact_cases_def)
  have g: "fsub fl 1 (fsum fl [fsquare fl 1]) = 0"
    using assms(1) by (simp add: ieee_exact_cases_def)
  have r: "np_round fl 0 = 0"
    using assms(1) by (simp add: ieee_exact_cases_def)
  show ?thesis
    using assms(3)
    by (auto simp: impurity_fp_def unrounded_impurity_fp_def
        labels_by_count_replicate [OF assms(2)] p e g r)
qed

lemma partition_self_positive:
  assumes "l \<in> set (levels df t)"
  shows "0 < length (partition_rows df t l)"
  using partition_self_nonempty [OF assms] by (simp add: partition_target_def)

lemma partition_self_impurity_fp:
  assumes "ieee_exact_cases fl" and "c = ''entropy'' \<or> c = ''gini''"
    and "l \<in> set (levels df t)"
  shows "impurity_fp fl c (partition_target df t t l) = 0"
  unfolding partition_target_self
  by (rule impurity_fp_replicate [OF assms(1) partition_self_positive [OF assms(3)] assms(2)])

lemma remaining_impurity_fp_self:
  assumes "ieee_exact_cases fl" and "c = ''entropy'' \<or> c = ''gini''"
  shows "remaining_impurity_fp fl df t t c = 0"
proof -
  have z: "np_round fl 0 = 0" "\<And>x. fmul fl 0 x = 0" "\<And>n. fsum fl (replicate n 0) = 0"
    using assms(1) by (simp_all add: ieee_exact_cases_def)
  have "map (\<lambda>l. fmul fl (np_round fl (impurity_fp fl c (partition_target df t t l)))
                        (weight_fp fl df t l)) (levels df t)
      = map (\<lambda>l. 0) (levels df t)"
    by (rule map_cong) (simp_all add: partition_self_impurity_fp [OF assms] z)
  then have "remaining_impurity_fp fl df t t c = fsum fl (replicate (length (levels df t)) 0)"
    by (simp add: remaining_impurity_fp_def map_replicate_const)
  then show ?thesis by (simp add: z)
qed

text \<open>
  C10. Called with the target attribute as descriptive attribute (a column of the
  data set, and a supported criterion), the function raises nothing: every
  partition is homogeneous in the target, every partition impurity is 0, the
  remaining impurity is 0, and the returned gain is the rounded impurity of the
  target column, as \<open>compute_impurity\<close> returns it. The double arithmetic is only
  taken to be exact where IEEE arithmetic is: \<open>k / k = 1\<close>, \<open>log2 1 = 0\<close>, \<open>1\<^sup>2 = 1\<close>,
  \<open>0 * x = 0\<close>, \<open>x - 0 = x\<close>, \<open>1 - 1 = 0\<close>, sums of one number and of zeros, and the
  rounding of 0.
\<close>

theorem information_gain_target_as_descriptive:
  assumes "ieee_exact_cases fl" and "t \<in> set (columns df)" and "c = ''entropy'' \<or> c = ''gini''"
  shows "comp_feature_information_gain_fp fl df t t c =
     ([[Str ''target feature:'', Str t],
       [Str ''descriptive_feature:'', Str t],
       [Str ''split criterion:'', Str c],
       [Str ''impurity of partitions:'', FloatList (map (\<lambda>l. 0) (levels df t))],
       [Str ''weights of partitions:'',
          FloatList (map (\<lambda>l. py_round fl
                                 (fdiv fl (length (partition_rows df t l)) (length (rows df))))
                         (levels df t))],
       [Str ''remaining impurity:'', Float 0],
       [Str ''information gain:'', Float (impurity_fp fl c (column df t))],
       [Str ''===================='']],
      Inr (impurity_fp fl c (column df t))) \<and>
    compute_impurity_fp fl (column df t) c = Inr (impurity_fp fl c (column df t)) \<and>
    list_all (\<lambda>l. homogeneous (partition_target df t t l) \<and>
                   compute_impurity_fp fl (partition_target df t t l) c = Inr 0)
             (levels df t)"
proof -
  have z: "np_round fl 0 = 0" "\<And>x. fsub fl x 0 = x"
    using assms(1) by (simp_all add: ieee_exact_cases_def)
  have m: "map (\<lambda>l. np_round fl (impurity_fp fl c (partition_target df t t l))) (levels df t)
         = map (\<lambda>l. 0) (levels df t)"
    by (rule map_cong) (simp_all add: partition_self_impurity_fp [OF assms(1,3)] z)
  have "list_all (\<lambda>l. homogeneous (partition_target df t t l) \<and>
                   compute_impurity_fp fl (partition_target df t t l) c = Inr 0)
             (levels df t)"
    unfolding list_all_iff
  proof (intro ballI conjI)
    fix l assume l: "l \<in> set (levels df t)"
    show "homogeneous (partition_target df t t l)"
      by (simp add: partition_target_self homogeneous_replicate)
    show "compute_impurity_fp fl (partition_target df t t l) c = Inr 0"
      using assms(3) by (simp add: compute_impurity_fp_value
          partition_self_impurity_fp [OF assms(1,3) l])
  qed
  moreover have "compute_impurity_fp fl (column df t) c = Inr (impurity_fp fl c (column df t))"
    using assms(3) by (rule compute_impurity_fp_value)
  ultimately show ?thesis
    using comp_feature_information_gain_fp_eq [OF assms(2) assms(2) assms(3), of fl]
    by (simp add: m remaining_impurity_fp_self [OF assms(1,3)] z weight_fp_def)
qed

theorem information_gain_target_as_descriptive_witness:
  "(ieee_exact_cases exact_ops \<and> ''vegetation'' \<in> set (columns vegetation_df) \<and>
   comp_feature_information_gain_fp exact_ops vegetation_df ''vegetation'' ''vegetation''
       ''entropy'' =
     ([[Str ''target feature:'', Str ''vegetation''],
       [Str ''descriptive_feature:'', Str ''vegetation''],
       [Str ''split criterion:'', Str ''entropy''],
       [Str ''impurity of partitions:'', FloatList [0, 0, 0]],
       [Str ''weights of partitions:'', FloatList [429 / 1000, 286 / 1000, 286 / 1000]],
       [Str ''remaining impurity:'', Float 0],
       [Str ''information gain:'', Float (1557 / 1000)],
       [Str ''===================='']],
      Inr (1557 / 1000)) \<and>
   compute_impurity_fp exact_ops (column vegetation_df ''vegetation'') ''entropy''
     = Inr (1557 / 1000)) \<and>
   (ieee_exact_cases ieee_ops \<and> ''t'' \<in> set (columns tie_target_df) \<and>
   comp_feature_information_gain_fp ieee_ops tie_target_df ''t'' ''t'' ''gini'' =
     ([[Str ''target feature:'', Str ''t''],
       [Str ''descriptive_feature:'', Str ''t''],
       [Str ''split criterion:'', Str ''gini''],
       [Str ''impurity of partitions:'', FloatList [0, 0, 0, 0]],
       [Str ''weights of partitions:'',
          FloatList [double_of (825 / 1000), double_of (125 / 1000),
                     double_of (25 / 1000), double_of (25 / 1000)]],
       [Str ''remaining impurity:'', Float 0],
       [Str ''information gain:'', Float (double_of (303 / 1000))],
       [Str ''===================='']],
      Inr (double_of (303 / 1000))) \<and>
   compute_impurity_fp exact_ops (column tie_target_df ''t'') ''gini'' = Inr (302 / 1000))"
proof -
  have veg: "ieee_exact_cases exact_ops \<and> ''vegetation'' \<in> set (columns vegetation_df) \<and>
   comp_feature_information_gain_fp exact_ops vegetation_df ''vegetation'' ''vegetation''
       ''entropy'' =
     ([[Str ''target feature:'', Str ''vegetation''],
       [Str ''descriptive_feature:'', Str ''vegetation''],
       [Str ''split criterion:'', Str ''entropy''],
       [Str ''impurity of partitions:'', FloatList [0, 0, 0]],
       [Str ''weights of partitions:'', FloatList [429 / 1000, 286 / 1000, 286 / 1000]],
       [Str ''remaining impurity:'', Float 0],
       [Str ''information gain:'', Float (1557 / 1000)],
       [Str ''===================='']],
      Inr (1557 / 1000)) \<and>
   compute_impurity_fp exact_ops (column vegetation_df ''vegetation'') ''entropy''
     = Inr (1557 / 1000)"
  proof -
    have l: "levels vegetation_df ''vegetation'' = [S ''chapparal'', S ''riparian'', S ''conifer'']"
      by (simp add: levels_def unique_def column_def vegetation_df_def veg_row_def)
    have len: "length (rows vegetation_df) = 7"
      by (simp add: vegetation_df_def)
    have w: "length (partition_rows vegetation_df ''vegetation'' (S ''chapparal'')) = 3"
      "length (partition_rows vegetation_df ''vegetation'' (S ''riparian'')) = 2"
      "length (partition_rows vegetation_df ''vegetation'' (S ''conifer'')) = 2"
      by (simp_all add: partition_rows_def vegetation_df_def veg_row_def)
    show ?thesis
      using ieee_exact_cases_exact
        information_gain_target_as_descriptive
          [OF ieee_exact_cases_exact veg_columns(1), of "''entropy''"]
      unfolding l list.map
      by (simp add: len w exact_facts veg_facts)
  qed
  have tie: "ieee_exact_cases ieee_ops \<and> ''t'' \<in> set (columns tie_target_df) \<and>
   comp_feature_information_gain_fp ieee_ops tie_target_df ''t'' ''t'' ''gini'' =
     ([[Str ''target feature:'', Str ''t''],
       [Str ''descriptive_feature:'', Str ''t''],
       [Str ''split criterion:'', Str ''gini''],
       [Str ''impurity of partitions:'', FloatList [0, 0, 0, 0]],
       [Str ''weights of partitions:'',
          FloatList [double_of (825 / 1000), double_of (125 / 1000),
                     double_of (25 / 1000), double_of (25 / 1000)]],
       [Str ''remaining impurity:'', Float 0],
       [Str ''information gain:'', Float (double_of (303 / 1000))],
       [Str ''===================='']],
      Inr (double_of (303 / 1000))) \<and>
   compute_impurity_fp exact_ops (column tie_target_df ''t'') ''gini'' = Inr (302 / 1000)"
  proof -
    have e: "compute_impurity_fp exact_ops (column tie_target_df ''t'') ''gini''
           = Inr (302 / 1000)"
      by (simp add: compute_impurity_fp_value tie_target tie_list_gini)
    have r: "comp_feature_information_gain_fp ieee_ops tie_target_df ''t'' ''t'' ''gini'' =
       ([[Str ''target feature:'', Str ''t''],
         [Str ''descriptive_feature:'', Str ''t''],
         [Str ''split criterion:'', Str ''gini''],
         [Str ''impurity of partitions:'', FloatList [0, 0, 0, 0]],
         [Str ''weights of partitions:'',
            FloatList [double_of (825 / 1000), double_of (125 / 1000),
                       double_of (25 / 1000), double_of (25 / 1000)]],
         [Str ''remaining impurity:'', Float 0],
         [Str ''information gain:'', Float (double_of (303 / 1000))],
         [Str ''===================='']],
        Inr (double_of (303 / 1000)))"
      using information_gain_target_as_descriptive
        [OF ieee_exact_cases_ieee tie_target(1), of "''gini''"]
      unfolding tie_target list.map
      by (simp add: tie_list_gini ieee_sel ieee_roundings round3_def rint_def)
    show ?thesis
      using ieee_exact_cases_ieee tie_target(1) r e by (intro conjI)
  qed
  show ?thesis
    by (rule conjI [OF veg tie])
qed

end
